theory Spec2Isabelle
  imports Main
begin

text \<open>
  The repository context builder of the dashboard: the selection of files that are relevant
  to a question, the tree made of a flat repository listing, the content fetcher with its
  fall-backs, the two entry points that send a prompt to the completion service, and the
  acquisition of the repository structure. Each function of the sources is given as a
  function of the same name; what it awaits from the network is an argument, and the
  requests it makes are returned with its result.
\<close>

section \<open>JavaScript string and array primitives used by the sources\<close>

text \<open>
  Strings are lists of characters. \<open>String.prototype.startsWith\<close>, \<open>endsWith\<close> and
  \<open>includes\<close> are written out as recursive functions so that they evaluate on literals.
\<close>

fun startsWith :: "string \<Rightarrow> string \<Rightarrow> bool" where
  "startsWith s [] = True"
| "startsWith [] (p # ps) = False"
| "startsWith (c # cs) (p # ps) = (c = p \<and> startsWith cs ps)"

definition endsWith :: "string \<Rightarrow> string \<Rightarrow> bool" where
  "endsWith s p = startsWith (rev s) (rev p)"

fun includesStr :: "string \<Rightarrow> string \<Rightarrow> bool" where
  "includesStr [] sub = (sub = [])"
| "includesStr (c # cs) sub = (startsWith (c # cs) sub \<or> includesStr cs sub)"

text \<open>
  \<open>String.prototype.toLowerCase\<close>, on the ASCII letters; every other character is kept.
\<close>

definition lowerChar :: "char \<Rightarrow> char" where
  "lowerChar c =
     (let n = (of_char c :: nat) in if 65 \<le> n \<and> n \<le> 90 then char_of (n + 32) else c)"

definition toLowerCase :: "string \<Rightarrow> string" where
  "toLowerCase s = map lowerChar s"

section \<open>Relevance selector (\<open>selectRelevantFiles\<close>, \<open>scoreFileRelevance\<close>)\<close>

text \<open>
  \<open>scoreFileRelevance(filePath, keywords)\<close>: a \<open>reduce\<close> from 0 that adds one for each
  keyword that occurs in the lower-cased path.
\<close>

definition scoreFileRelevance :: "string \<Rightarrow> string list \<Rightarrow> nat" where
  "scoreFileRelevance filePath keywords =
     foldl (\<lambda>score keyword. score + (if includesStr (toLowerCase filePath) keyword then 1 else 0))
       0 keywords"

text \<open>The object literal \<open>fileMatchers\<close>; \<open>Object.entries\<close> lists it in this order.\<close>

definition fileMatchers :: "(string \<times> string list) list" where
  "fileMatchers =
     [(''github api'', [''github'', ''api'', ''fetch'', ''request'']),
      (''repository'', [''repository'', ''repo'', ''github'']),
      (''authentication'', [''auth'', ''login'', ''signin'', ''signup'', ''clerk'']),
      (''ui components'', [''component'', ''button'', ''card'', ''layout'']),
      (''styling'', [''css'', ''style'', ''tailwind'']),
      (''routing'', [''route'', ''page'', ''navigation'']),
      (''api integration'', [''api'', ''fetch'', ''request'', ''axios''])]"

definition githubApiPriorities :: "string list" where
  "githubApiPriorities = [''github'', ''api'', ''fetch'', ''request'', ''repo'', ''repository'']"

text \<open>The loop that collects the categories one of whose keywords the question includesStr.\<close>

definition relevantCategoriesOf :: "string \<Rightarrow> string list" where
  "relevantCategoriesOf lowerQuestion =
     map fst (filter (\<lambda>(category, keywords). list_ex (includesStr lowerQuestion) keywords)
       fileMatchers)"

definition isGithubQuestion :: "string \<Rightarrow> bool" where
  "isGithubQuestion lowerQuestion \<longleftrightarrow>
     includesStr lowerQuestion ''github api'' \<or> includesStr lowerQuestion ''fetch repo'' \<or>
     includesStr lowerQuestion ''repository fetch'' \<or> includesStr lowerQuestion ''github integration''"

definition potentialGithubFile :: "string \<Rightarrow> bool" where
  "potentialGithubFile file =
     (let lowerFile = toLowerCase file in
        includesStr lowerFile ''github'' \<or> includesStr lowerFile ''api'' \<or>
        includesStr lowerFile ''repo'' \<or> includesStr lowerFile ''fetch'' \<or>
        (includesStr lowerFile ''lib/'' \<and> (endsWith lowerFile ''.js'' \<or> endsWith lowerFile ''.ts'')))"

text \<open>
  The category filter of the other branch. \<open>fileMatchers[category]\<close> is looked up for
  categories taken from \<open>fileMatchers\<close> itself, so the lookup always succeeds.
\<close>

definition matchesCategories :: "string list \<Rightarrow> string \<Rightarrow> bool" where
  "matchesCategories relevantCategories file =
     (let lowerFile = toLowerCase file in
        list_ex (\<lambda>category.
           case map_of fileMatchers category of
             None \<Rightarrow> False
           | Some keywords \<Rightarrow> list_ex (\<lambda>keyword. includesStr lowerFile keyword) keywords)
          relevantCategories)"

text \<open>
  \<open>Array.prototype.sort\<close> with the comparator \<open>bScore - aScore\<close> is a stable sort by
  descending score: \<open>sort_key\<close> (a stable insertion sort) on the negated score.
\<close>

definition sortByRelevance :: "string list \<Rightarrow> string list" where
  "sortByRelevance fs = sort_key (\<lambda>f. - int (scoreFileRelevance f githubApiPriorities)) fs"

text \<open>One iteration of the loop \<open>for (const file of files)\<close> that adds key source files.\<close>

definition addKeyFile :: "string list \<Rightarrow> string \<Rightarrow> string list" where
  "addKeyFile relevantFiles file =
     (if (includesStr file ''/lib/'' \<or> includesStr file ''/utils/'' \<or> includesStr file ''/api/'') \<and>
         \<not> List.member relevantFiles file \<and> length relevantFiles < 5
      then relevantFiles @ [file] else relevantFiles)"

definition selectRelevantFiles :: "string list \<Rightarrow> string \<Rightarrow> string list" where
  "selectRelevantFiles files question =
     (let lowerQuestion = toLowerCase question;
          relevantCategories = relevantCategoriesOf lowerQuestion;
          relevantFiles =
            (if isGithubQuestion lowerQuestion
             then take 5 (sortByRelevance (filter potentialGithubFile files))
             else take 5 (filter (matchesCategories relevantCategories) files));
          relevantFiles' =
            (if length relevantFiles < 3
             then
               (let withPackage =
                      (if \<not> List.member relevantFiles ''package.json'' \<and>
                          List.member files ''package.json''
                       then relevantFiles @ [''package.json''] else relevantFiles)
                in foldl addKeyFile withPackage files)
             else relevantFiles)
      in take 5 relevantFiles')"

section \<open>Base64 decoding (\<open>atob\<close>, \<open>decodeURIComponent\<close>, \<open>safeBase64Decode\<close>)\<close>

definition base64Alphabet :: string where
  "base64Alphabet = ''ABCDEFGHIJKLMNOPQRSTUVWXYZabcdefghijklmnopqrstuvwxyz0123456789+/''"

fun indexOfChar :: "string \<Rightarrow> char \<Rightarrow> nat option" where
  "indexOfChar [] c = None"
| "indexOfChar (x # xs) c = (if x = c then Some 0 else map_option Suc (indexOfChar xs c))"

definition sextetOf :: "char \<Rightarrow> nat option" where
  "sextetOf c = indexOfChar base64Alphabet c"

text \<open>
  The browser's \<open>atob\<close> is the forgiving base64 decoder: ASCII whitespace (tab, line feed,
  form feed, carriage return, space) is removed; when the length is then a multiple of
  four, one or two trailing \<open>=\<close> are removed; a length of 1 modulo 4 or a character outside
  the alphabet raises (here \<open>None\<close>); the sextets are packed into bytes, and the 4 or 2
  spare bits of a last group of two or three sextets are dropped. The result is a binary
  string, one character per byte.
\<close>

definition isAsciiWhitespace :: "char \<Rightarrow> bool" where
  "isAsciiWhitespace c \<longleftrightarrow> (of_char c :: nat) \<in> set [9, 10, 12, 13, 32]"

definition stripPadding :: "string \<Rightarrow> string" where
  "stripPadding d =
     (if length d mod 4 = 0
      then (if endsWith d ''=='' then butlast (butlast d)
            else if endsWith d ''='' then butlast d else d)
      else d)"

fun sextetsToBytes :: "nat list \<Rightarrow> nat list" where
  "sextetsToBytes (a # b # c # d # rest) =
     (a * 4 + b div 16) # ((b mod 16) * 16 + c div 4) # ((c mod 4) * 64 + d) #
       sextetsToBytes rest"
| "sextetsToBytes [a, b, c] = [a * 4 + b div 16, (b mod 16) * 16 + c div 4]"
| "sextetsToBytes [a, b] = [a * 4 + b div 16]"
| "sextetsToBytes [a] = []"
| "sextetsToBytes [] = []"

definition atob :: "string \<Rightarrow> string option" where
  "atob s =
     (let d = stripPadding (filter (\<lambda>c. \<not> isAsciiWhitespace c) s) in
        if length d mod 4 = 1 then None
        else (case those (map sextetOf d) of
                None \<Rightarrow> None
              | Some sextets \<Rightarrow> Some (map char_of (sextetsToBytes sextets))))"

text \<open>
  \<open>'%' + ('00' + c.charCodeAt(0).toString(16)).slice(-2)\<close>: the code of a character of the
  binary string in lower-case hexadecimal, padded to two digits.
\<close>

definition hexDigits :: string where
  "hexDigits = ''0123456789abcdef''"

fun toString16 :: "nat \<Rightarrow> string" where
  "toString16 n =
     (if n < 16 then [hexDigits ! n] else toString16 (n div 16) @ [hexDigits ! (n mod 16)])"

declare toString16.simps [simp del]

definition sliceLast2 :: "string \<Rightarrow> string" where
  "sliceLast2 s = drop (length s - 2) s"

definition percentEncode :: "char \<Rightarrow> string" where
  "percentEncode c = ''%'' @ sliceLast2 (''00'' @ toString16 (of_char c))"

text \<open>
  \<open>decodeURIComponent\<close>. Its result may hold characters beyond the 8-bit range, so it is
  a list of UTF-16 code units, as numbers; \<open>None\<close> stands for the \<open>URIError\<close>. The escapes
  are read first (\<open>%\<close> must be followed by two hexadecimal digits), then the bytes they
  denote are decoded as UTF-8: a byte below 128 is a character of its own, a lead byte
  announces one to three continuation bytes, each of which must be an escape as well, and
  the sequence must be the shortest encoding of a code point that is no surrogate and at
  most U+10FFFF. Any violation raises, whichever comes first.
\<close>

datatype uri_token = Lit char | Escaped nat

definition hexValue :: "char \<Rightarrow> nat option" where
  "hexValue c =
     (let n = (of_char c :: nat) in
        if 48 \<le> n \<and> n \<le> 57 then Some (n - 48)
        else if 97 \<le> n \<and> n \<le> 102 then Some (n - 87)
        else if 65 \<le> n \<and> n \<le> 70 then Some (n - 55)
        else None)"

fun unescapeTokens :: "string \<Rightarrow> uri_token list option" where
  "unescapeTokens [] = Some []"
| "unescapeTokens (c # cs) =
     (if c = CHR ''%'' then
        (case cs of
           h1 # h2 # rest \<Rightarrow>
             (case (hexValue h1, hexValue h2) of
                (Some a, Some b) \<Rightarrow>
                  map_option (Cons (Escaped (16 * a + b))) (unescapeTokens rest)
              | _ \<Rightarrow> None)
         | _ \<Rightarrow> None)
      else map_option (Cons (Lit c)) (unescapeTokens cs))"

definition isContinuation :: "nat \<Rightarrow> bool" where
  "isContinuation b \<longleftrightarrow> 128 \<le> b \<and> b < 192"

definition validScalar :: "nat \<Rightarrow> nat \<Rightarrow> bool" where
  "validScalar shortest v \<longleftrightarrow> shortest \<le> v \<and> v \<le> 1114111 \<and> (v < 55296 \<or> 57343 < v)"

definition utf16Units :: "nat \<Rightarrow> nat list" where
  "utf16Units v =
     (if v < 65536 then [v]
      else [55296 + (v - 65536) div 1024, 56320 + (v - 65536) mod 1024])"

fun utf8Tokens :: "uri_token list \<Rightarrow> nat list option" where
  "utf8Tokens [] = Some []"
| "utf8Tokens (Lit c # ts) = map_option (Cons (of_char c)) (utf8Tokens ts)"
| "utf8Tokens (Escaped b # ts) =
     (if b < 128 then map_option (Cons b) (utf8Tokens ts)
      else if 192 \<le> b \<and> b < 224 then
        (case ts of
           Escaped c1 # ts' \<Rightarrow>
             (let v = (b - 192) * 64 + (c1 - 128) in
                if isContinuation c1 \<and> validScalar 128 v
                then map_option (append (utf16Units v)) (utf8Tokens ts') else None)
         | _ \<Rightarrow> None)
      else if 224 \<le> b \<and> b < 240 then
        (case ts of
           Escaped c1 # Escaped c2 # ts' \<Rightarrow>
             (let v = ((b - 224) * 64 + (c1 - 128)) * 64 + (c2 - 128) in
                if isContinuation c1 \<and> isContinuation c2 \<and> validScalar 2048 v
                then map_option (append (utf16Units v)) (utf8Tokens ts') else None)
         | _ \<Rightarrow> None)
      else if 240 \<le> b \<and> b < 248 then
        (case ts of
           Escaped c1 # Escaped c2 # Escaped c3 # ts' \<Rightarrow>
             (let v = (((b - 240) * 64 + (c1 - 128)) * 64 + (c2 - 128)) * 64 + (c3 - 128) in
                if isContinuation c1 \<and> isContinuation c2 \<and> isContinuation c3 \<and>
                   validScalar 65536 v
                then map_option (append (utf16Units v)) (utf8Tokens ts') else None)
         | _ \<Rightarrow> None)
      else None)"

definition decodeURIComponent :: "string \<Rightarrow> nat list option" where
  "decodeURIComponent s =
     (case unescapeTokens s of None \<Rightarrow> None | Some ts \<Rightarrow> utf8Tokens ts)"

text \<open>
  \<open>safeBase64Decode\<close>: \<open>-\<close> becomes \<open>+\<close>, \<open>_\<close> becomes \<open>/\<close>, whitespace (\<open>\s\<close>: the
  characters 9 to 13, the space and the no-break space among the 8-bit ones) is removed;
  the \<open>try\<close> block decodes with \<open>atob\<close>, percent-encodes every character of the binary
  string and hands the result to \<open>decodeURIComponent\<close>; the \<open>catch\<close> block returns the
  fixed failure text.
\<close>

definition isJsWhitespace :: "char \<Rightarrow> bool" where
  "isJsWhitespace c \<longleftrightarrow> (of_char c :: nat) \<in> set [9, 10, 11, 12, 13, 32, 160]"

definition replaceAll :: "char \<Rightarrow> char \<Rightarrow> string \<Rightarrow> string" where
  "replaceAll a b s = map (\<lambda>c. if c = a then b else c) s"

definition jsString :: "string \<Rightarrow> nat list" where
  "jsString s = map of_char s"

definition safeBase64Decode :: "string \<Rightarrow> nat list" where
  "safeBase64Decode str =
     (let base64 = filter (\<lambda>c. \<not> isJsWhitespace c)
                     (replaceAll CHR ''_'' CHR ''/'' (replaceAll CHR ''-'' CHR ''+'' str))
      in case atob base64 of
           None \<Rightarrow> jsString ''Failed to decode content''
         | Some binary \<Rightarrow>
             (case decodeURIComponent (concat (map percentEncode binary)) of
                None \<Rightarrow> jsString ''Failed to decode content''
              | Some decoded \<Rightarrow> decoded))"

text \<open>
  The encoder is not code of the repository: the hosting API sends the README
  base64-encoded. It is the base64 of RFC 4648 (standard alphabet, \<open>=\<close> padding), over
  the bytes of the text, written here to state the round trip.
\<close>

definition encodeSextet :: "nat \<Rightarrow> char" where
  "encodeSextet n = base64Alphabet ! n"

fun bytesToSextets :: "nat list \<Rightarrow> nat list" where
  "bytesToSextets (a # b # c # rest) =
     (a div 4) # ((a mod 4) * 16 + b div 16) # ((b mod 16) * 4 + c div 64) # (c mod 64) #
       bytesToSextets rest"
| "bytesToSextets [a, b] = [a div 4, (a mod 4) * 16 + b div 16, (b mod 16) * 4]"
| "bytesToSextets [a] = [a div 4, (a mod 4) * 16]"
| "bytesToSextets [] = []"

definition base64Encode :: "nat list \<Rightarrow> string" where
  "base64Encode bytes =
     map encodeSextet (bytesToSextets bytes) @
     replicate ((3 - length bytes mod 3) mod 3) (CHR ''='')"

definition isAsciiString :: "string \<Rightarrow> bool" where
  "isAsciiString s = list_all (\<lambda>c. (of_char c :: nat) < 128) s"

section \<open>Tree builder (\<open>buildHierarchy\<close>)\<close>

text \<open>
  \<open>String.prototype.split\<close> with a one-character separator and \<open>Array.prototype.join\<close>.
  Splitting never gives an empty array: the empty string splits into one empty segment.
\<close>

fun splitOn :: "char \<Rightarrow> string \<Rightarrow> string list" where
  "splitOn sep [] = [[]]"
| "splitOn sep (c # cs) =
     (if c = sep then [] # splitOn sep cs
      else (case splitOn sep cs of
              seg # segs \<Rightarrow> (c # seg) # segs
            | [] \<Rightarrow> [[c]]))"

fun joinWith :: "string \<Rightarrow> string list \<Rightarrow> string" where
  "joinWith sep [] = []"
| "joinWith sep [x] = x"
| "joinWith sep (x # y # ys) = x @ sep @ joinWith sep (y # ys)"

text \<open>
  A row of the flat listing (\<open>path\<close>, \<open>name\<close>, \<open>type\<close>, optional \<open>size\<close>; \<open>TOther\<close> is a type
  that is neither \<open>'file'\<close> nor \<open>'dir'\<close>, as the hosting API has them) and a node of the
  tree, the \<open>FileNode\<close> interface: \<open>children\<close> is \<open>None\<close> where the field is \<open>undefined\<close>;
  \<open>extension\<close>, \<open>size\<close> and \<open>description\<close> are set by the visualization component only.
\<close>

datatype file_type = TFile | TDir | TOther

record file_entry =
  e_path :: string
  e_name :: string
  e_type :: file_type
  e_size :: "nat option"

datatype file_node =
  FileNode (n_path: string) (n_name: string) (n_type: file_type)
    (n_children: "file_node list option")
    (n_extension: "string option") (n_size: "nat option") (n_description: "string option")

text \<open>\<open>file.path || file.name\<close>: the name stands in for an empty path.\<close>

definition entryKey :: "file_entry \<Rightarrow> string" where
  "entryKey file = (if e_path file = [] then e_name file else e_path file)"

definition setChildren :: "file_node \<Rightarrow> file_node list \<Rightarrow> file_node" where
  "setChildren node cs =
     FileNode (n_path node) (n_name node) (n_type node) (Some cs)
       (n_extension node) (n_size node) (n_description node)"

text \<open>\<open>currentLevel.children?.push(child)\<close>: nothing happens where \<open>children\<close> is undefined.\<close>

definition pushChild :: "file_node \<Rightarrow> file_node \<Rightarrow> file_node" where
  "pushChild child currentLevel =
     (case n_children currentLevel of
        None \<Rightarrow> currentLevel
      | Some cs \<Rightarrow> setChildren currentLevel (cs @ [child]))"

text \<open>
  The folder created when \<open>find\<close> comes back empty; \<open>walked @ [folderName]\<close> is
  \<open>pathParts.slice(0, i + 1)\<close>.
\<close>

definition newFolder :: "string list \<Rightarrow> string \<Rightarrow> file_node" where
  "newFolder walked folderName =
     FileNode (joinWith ''/'' (walked @ [folderName])) folderName TDir (Some []) None None None"

definition isFolderNamed :: "string \<Rightarrow> file_node \<Rightarrow> bool" where
  "isFolderNamed folderName child \<longleftrightarrow> n_type child = TDir \<and> n_name child = folderName"

text \<open>
  \<open>find\<close> returns the first child that matches, and everything done to \<open>currentLevel\<close>
  afterwards is done to that object, which stays where it is in its parent's array. In the
  model the first matching child is replaced by what the rest of the walk makes of it;
  \<open>None\<close> says that no child matches.
\<close>

fun updateFound :: "('a \<Rightarrow> bool) \<Rightarrow> ('a \<Rightarrow> 'a) \<Rightarrow> 'a list \<Rightarrow> 'a list option" where
  "updateFound P f [] = None"
| "updateFound P f (x # xs) =
     (if P x then Some (f x # xs) else map_option (Cons x) (updateFound P f xs))"

text \<open>
  The loop over \<open>pathParts\<close> without its last segment, followed by the push of the leaf
  (\<open>leaf = None\<close> when the push is skipped). \<open>walked\<close> holds the segments already passed.
  Where \<open>currentLevel.children\<close> is undefined, \<open>find\<close> and \<open>push\<close> are skipped by \<open>?.\<close>, so
  the new folder and all that follows are attached to nothing: the tree stays as it is.
\<close>

fun walk :: "file_node option \<Rightarrow> string list \<Rightarrow> string list \<Rightarrow> file_node \<Rightarrow> file_node" where
  "walk leaf walked [] currentLevel =
     (case leaf of None \<Rightarrow> currentLevel | Some child \<Rightarrow> pushChild child currentLevel)"
| "walk leaf walked (folderName # rest) currentLevel =
     (case n_children currentLevel of
        None \<Rightarrow> currentLevel
      | Some cs \<Rightarrow>
          (case updateFound (isFolderNamed folderName)
                  (walk leaf (walked @ [folderName]) rest) cs of
             Some cs' \<Rightarrow> setChildren currentLevel cs'
           | None \<Rightarrow>
               setChildren currentLevel
                 (cs @ [walk leaf (walked @ [folderName]) rest (newFolder walked folderName)])))"

text \<open>
  \<open>buildHierarchy\<close> inside \<open>renderStructureTree\<close>. The leaf is pushed only when the path
  has more than one segment or the entry is a file; a leaf of type \<open>dir\<close> gets an empty
  \<open>children\<close> array. An empty listing gives \<open>null\<close>.
\<close>

definition renderLeaf :: "file_entry \<Rightarrow> file_node" where
  "renderLeaf file =
     FileNode (entryKey file) (last (splitOn (CHR ''/'') (entryKey file))) (e_type file)
       (if e_type file = TDir then Some [] else None) None None None"

definition addEntry :: "file_node \<Rightarrow> file_entry \<Rightarrow> file_node" where
  "addEntry root file =
     (let pathParts = splitOn (CHR ''/'') (entryKey file) in
        walk (if length pathParts > 1 \<or> e_type file = TFile then Some (renderLeaf file) else None)
          [] (butlast pathParts) root)"

definition rootNode :: "string \<Rightarrow> file_node" where
  "rootNode repoName = FileNode [] repoName TDir (Some []) None None None"

definition buildHierarchy :: "string \<Rightarrow> file_entry list \<Rightarrow> file_node option" where
  "buildHierarchy repoName fileStructure =
     (if fileStructure = [] then None
      else Some (foldl addEntry (rootNode repoName) fileStructure))"

text \<open>
  The same construction in the effect of \<open>CodeVisualization\<close>, which stores the tree in
  \<open>hierarchicalData\<close>: the leaf is always pushed, has no \<open>children\<close> field and carries the
  extension, the size and a description. (The effect first looks for a listing that is a
  single error message; such a listing holds no file entry.) \<open>None\<close> says that the effect
  stores no tree: for an empty listing it only reports an error.
\<close>

definition generateFileDescription :: "string \<Rightarrow> string \<Rightarrow> string" where
  "generateFileDescription fileName extension =
     (if fileName = ''package.json'' then ''Project dependencies and scripts configuration''
      else if fileName = ''tsconfig.json'' then ''TypeScript configuration for the project''
      else if fileName = ''tailwind.config.js'' then ''Tailwind CSS configuration''
      else if fileName = ''next.config.js'' then ''Next.js framework configuration''
      else if includesStr fileName ''layout'' \<and> (extension = ''tsx'' \<or> extension = ''jsx'')
      then ''Page layout component defining the UI structure''
      else if includesStr fileName ''page'' \<and> (extension = ''tsx'' \<or> extension = ''jsx'')
      then ''Page component rendered at route''
      else if fileName = ''README.md'' then ''Project documentation and setup instructions''
      else if fileName = ''.gitignore'' then ''Specifies files Git should ignore''
      else if startsWith fileName ''.env'' then ''Environment variables configuration''
      else if extension = ''js'' \<or> extension = ''jsx'' then ''JavaScript source file''
      else if extension = ''ts'' \<or> extension = ''tsx'' then ''TypeScript source file''
      else if extension = ''css'' then ''CSS styles''
      else if extension = ''scss'' then ''SASS stylesheet''
      else if extension = ''json'' then ''JSON configuration file''
      else if extension = ''md'' then ''Markdown documentation''
      else if extension = ''svg'' then ''SVG graphic asset''
      else if extension = ''png'' \<or> extension = ''jpg'' \<or> extension = ''jpeg'' then ''Image asset''
      else ''Project file'')"

definition visLeaf :: "file_entry \<Rightarrow> file_node" where
  "visLeaf file =
     (let fileName = last (splitOn (CHR ''/'') (entryKey file));
          extension = (if includesStr fileName ''.'' then last (splitOn (CHR ''.'') fileName) else [])
      in FileNode (entryKey file) fileName (e_type file) None
           (Some extension) (e_size file) (Some (generateFileDescription fileName extension)))"

definition addEntryVis :: "file_node \<Rightarrow> file_entry \<Rightarrow> file_node" where
  "addEntryVis root file =
     walk (Some (visLeaf file)) [] (butlast (splitOn (CHR ''/'') (entryKey file))) root"

definition hierarchicalData :: "string \<Rightarrow> file_entry list \<Rightarrow> file_node option" where
  "hierarchicalData repoName fileStructure =
     (if fileStructure = [] then None
      else Some (foldl addEntryVis (rootNode repoName) fileStructure))"

text \<open>
  The notions the properties are stated with. \<open>nodesBelow ancestors node\<close> lists \<open>node\<close>
  and every node below it, each with the names of its ancestors below the root (outermost
  first); \<open>treeNodes root\<close> lists all the nodes under a root this way. The root's own name
  (the repository's) is no part of any path. \<open>allNodes Q\<close> says that \<open>Q\<close> holds of all of
  them. \<open>noDuplicateChildren\<close>: no node has two children with the same name and type.
\<close>

definition childrenOf :: "file_node \<Rightarrow> file_node list" where
  "childrenOf node = (case n_children node of None \<Rightarrow> [] | Some cs \<Rightarrow> cs)"




fun noDuplicateChildren :: "file_node \<Rightarrow> bool" where
  "noDuplicateChildren (FileNode p n t ch ext sz d) =
     (case ch of
        None \<Rightarrow> True
      | Some cs \<Rightarrow> distinct (map (\<lambda>c. (n_name c, n_type c)) cs) \<and> list_all noDuplicateChildren cs)"


section \<open>The network and the content fetcher\<close>

text \<open>
  An awaited call either returns or throws; \<open>Throws\<close> carries the text the handlers print
  (\<open>error.message\<close>, or \<open>String(error)\<close> for a value that is no \<open>Error\<close>).
\<close>

datatype 'a outcome = Throws string | Returns 'a

text \<open>
  What reading the property \<open>content\<close> of a parsed object gives: a string; a value that is
  no string and counts as true in a condition (a number but zero, \<open>true\<close>, an object, an
  array); or nothing of use (\<open>undefined\<close>, \<open>null\<close>, \<open>false\<close>, zero), which counts as false.
  A string counts as true unless it is empty.
\<close>

datatype json_value = NoValue | StringValue string | OtherValue

fun truthyValue :: "json_value \<Rightarrow> bool" where
  "truthyValue NoValue = False"
| "truthyValue (StringValue s) = (s \<noteq> [])"
| "truthyValue OtherValue = True"

text \<open>
  A parsed JSON body, as far as the sources look into it: \<open>null\<close>; an object of the
  contents API for a file, with its \<open>content\<close> and with its \<open>encoding\<close> where that is a string
  (it is only compared with \<open>'base64'\<close>); an array of listing rows; an object of the
  completion API, with the text at \<open>candidates[0].content.parts[0].text\<close> where there is
  one; any other value, whose \<open>content\<close> is undefined. \<open>j_text\<close> is what \<open>JSON.stringify\<close>
  makes of the value.
\<close>

datatype json_view =
    JNull
  | JFile json_value "string option"
  | JListing "file_entry list"
  | JCompletion "string option"
  | JOther

record json =
  j_text :: string
  j_view :: json_view

record response =
  r_ok :: bool
  r_status :: nat
  r_json :: "json outcome"
  r_text :: "string outcome"

text \<open>
  A request is a \<open>GET\<close> of a URL or the \<open>POST\<close> of a prompt to the completion endpoint, with
  its \<open>maxOutputTokens\<close> (the temperature is 0.2 at both call sites). The network answers a
  request given the requests made before it, so the same URL may be answered differently
  at different times; \<open>fetch\<close> appends the request to the trace.
\<close>

datatype request = Get string | Post string string nat

type_synonym network = "request list \<Rightarrow> request \<Rightarrow> response outcome"

definition fetch :: "network \<Rightarrow> request list \<Rightarrow> request \<Rightarrow> response outcome \<times> request list" where
  "fetch net trace req = (net trace req, trace @ [req])"

text \<open>
  \<open>fetchGitHubFileContent\<close>. The three attempts are the three blocks of its \<open>try\<close>; an
  attempt ends in content, in a failure that lets the next attempt run, or in an exception,
  which the \<open>catch\<close> turns into \<open>null\<close> at once.
\<close>

datatype attempt = Got string | Failed | Threw

text \<open>
  First attempt, on the answer of the contents API: with \<open>response.ok\<close>, the body is parsed
  (\<open>response.json()\<close> may throw, and reading a property of \<open>null\<close> throws); if
  \<open>data.content\<close> counts as true and \<open>data.encoding\<close> is \<open>'base64'\<close>, the content without its
  line feeds goes through \<open>atob\<close>, which throws on malformed input. A content that is no
  string has no method \<open>replace\<close>: the call throws.
\<close>

definition apiAttempt :: "response outcome \<Rightarrow> attempt" where
  "apiAttempt reply =
     (case reply of
        Throws _ \<Rightarrow> Threw
      | Returns response \<Rightarrow>
          if r_ok response then
            (case r_json response of
               Throws _ \<Rightarrow> Threw
             | Returns data \<Rightarrow>
                 (case j_view data of
                    JNull \<Rightarrow> Threw
                  | JFile content encoding \<Rightarrow>
                      if truthyValue content \<and> encoding = Some ''base64'' then
                        (case content of
                           StringValue c \<Rightarrow>
                             (case atob (filter (\<lambda>ch. ch \<noteq> CHR 0x0A) c) of
                                None \<Rightarrow> Threw
                              | Some decodedContent \<Rightarrow> Got decodedContent)
                         | _ \<Rightarrow> Threw)
                      else Failed
                  | _ \<Rightarrow> Failed))
          else Failed)"

text \<open>Second and third attempt, on the answer of a raw-content URL.\<close>

definition rawAttempt :: "response outcome \<Rightarrow> attempt" where
  "rawAttempt reply =
     (case reply of
        Throws _ \<Rightarrow> Threw
      | Returns rawResponse \<Rightarrow>
          if r_ok rawResponse then
            (case r_text rawResponse of
               Throws _ \<Rightarrow> Threw
             | Returns textContent \<Rightarrow> Got textContent)
          else Failed)"

definition cleanPathOf :: "string \<Rightarrow> string" where
  "cleanPathOf filePath = (if startsWith filePath ''/'' then drop 1 filePath else filePath)"

definition apiUrl :: "string \<Rightarrow> string \<Rightarrow> string \<Rightarrow> string" where
  "apiUrl repoOwner repoName filePath =
     ''https://api.github.com/repos/'' @ repoOwner @ ''/'' @ repoName @ ''/contents/'' @
       cleanPathOf filePath"

definition rawUrl :: "string \<Rightarrow> string \<Rightarrow> string \<Rightarrow> string" where
  "rawUrl repoOwner repoName filePath =
     ''https://raw.githubusercontent.com/'' @ repoOwner @ ''/'' @ repoName @ ''/main/'' @
       cleanPathOf filePath"

definition rawUrlMaster :: "string \<Rightarrow> string \<Rightarrow> string \<Rightarrow> string" where
  "rawUrlMaster repoOwner repoName filePath =
     ''https://raw.githubusercontent.com/'' @ repoOwner @ ''/'' @ repoName @ ''/master/'' @
       cleanPathOf filePath"

definition fetchGitHubFileContent ::
    "network \<Rightarrow> request list \<Rightarrow> string \<Rightarrow> string \<Rightarrow> string \<Rightarrow> string option \<times> request list" where
  "fetchGitHubFileContent net trace repoOwner repoName filePath =
     (let (response, t1) = fetch net trace (Get (apiUrl repoOwner repoName filePath)) in
      case apiAttempt response of
        Got decodedContent \<Rightarrow> (Some decodedContent, t1)
      | Threw \<Rightarrow> (None, t1)
      | Failed \<Rightarrow>
          (let (rawResponse, t2) = fetch net t1 (Get (rawUrl repoOwner repoName filePath)) in
           case rawAttempt rawResponse of
             Got textContent \<Rightarrow> (Some textContent, t2)
           | Threw \<Rightarrow> (None, t2)
           | Failed \<Rightarrow>
               (let (masterResponse, t3) =
                      fetch net t2 (Get (rawUrlMaster repoOwner repoName filePath)) in
                case rawAttempt masterResponse of
                  Got textContent \<Rightarrow> (Some textContent, t3)
                | Threw \<Rightarrow> (None, t3)
                | Failed \<Rightarrow> (None, t3))))"

section \<open>The completion entry points\<close>

text \<open>
  \<open>GEMINI_API_KEY\<close> is a constant of the module, the configured key after \<open>trim()\<close>; the
  functions of the model take it as their first argument.
\<close>

definition GEMINI_API_URL :: string where
  "GEMINI_API_URL =
     ''https://generativelanguage.googleapis.com/v1beta/models/gemini-1.5-pro:generateContent''"

definition completionUrl :: "string \<Rightarrow> string" where
  "completionUrl apiKey = GEMINI_API_URL @ ''?key='' @ apiKey"

text \<open>A number in a template string: its decimal digits.\<close>

fun showNat :: "nat \<Rightarrow> string" where
  "showNat n =
     (if n < 10 then [''0123456789'' ! n] else showNat (n div 10) @ [''0123456789'' ! (n mod 10)])"

declare showNat.simps [simp del]

text \<open>\<open>s.length > n ? s.substring(0, n) + marker : s\<close>\<close>

definition truncateTo :: "nat \<Rightarrow> string \<Rightarrow> string \<Rightarrow> string" where
  "truncateTo n marker s = (if length s > n then take n s @ marker else s)"

text \<open>
  \<open>if (fileContent)\<close>: a value of type \<open>string | null\<close> is truthy when it is a non-empty
  string; \<open>truthy\<close> gives that string.
\<close>

definition truthy :: "string option \<Rightarrow> string option" where
  "truthy v = (case v of None \<Rightarrow> None | Some s \<Rightarrow> if s \<noteq> [] then Some s else None)"

subsection \<open>\<open>generateRepoDocumentation\<close>\<close>

definition missingKeyDocumentation :: string where
  "missingKeyDocumentation =
     ''# Documentation Generation Failed\<newline>'' @ ''\<newline>'' @
       ''The Gemini API key is missing. Please add the'' @
       '' NEXT_PUBLIC_GEMINI_API_KEY to your environment variables.''"

definition invalidKeyDocumentation :: string where
  "invalidKeyDocumentation =
     ''# Documentation Generation Failed\<newline>'' @ ''\<newline>'' @
       ''The Gemini API key appears to be invalid. Google API keys'' @
       '' typically start with 'AIza'.''"

definition failedDocumentation :: "string \<Rightarrow> string" where
  "failedDocumentation message =
     ''# Documentation Generation Failed\<newline>'' @ ''\<newline>'' @
       ''Unfortunately, we couldn't generate documentation using'' @
       '' Gemini API. This might be due to:\<newline>'' @
       ''- API rate limits (the free tier has usage limitations)\<newline>'' @
       ''- Network issues\<newline>'' @ ''- Content filtering restrictions\<newline>'' @
       ''\<newline>Error details: '' @
     message @
     ''\<newline>'' @ ''\<newline>'' @
       ''You can still view the repository structure and README in'' @
       '' the other tabs.''"

definition fileListOf :: "file_entry list \<Rightarrow> string" where
  "fileListOf fileStructure =
     joinWith ''\<newline>''
       (map (\<lambda>file. (if e_type file = TDir then ''Directory'' else ''File'') @ '': '' @ e_name file)
          fileStructure)"

text \<open>
  The prompt. \<open>extensionStats\<close>, the summary of the file extensions in the order of
  \<open>Object.entries\<close>, is taken as given: no property below reads it.
\<close>

definition documentationPrompt ::
    "string \<Rightarrow> string option \<Rightarrow> string \<Rightarrow> string \<Rightarrow> file_entry list \<Rightarrow> string" where
  "documentationPrompt repoName repoDescription extensionStats readmeContent fileStructure =
     ''\<newline>'' @ ''Please analyze this GitHub repository and create'' @
       '' comprehensive documentation for it.\<newline>'' @
       ''\<newline>Repository Name: '' @
     repoName @ ''\<newline>'' @
     (case repoDescription of
        None \<Rightarrow> []
      | Some d \<Rightarrow> if d \<noteq> [] then ''Repository Description: '' @ d else []) @
     ''\<newline>\<newline>File Types Summary:\<newline>'' @
     extensionStats @
     ''\<newline>\<newline>README Content:\<newline>'' @
     truncateTo 2000 ''... (truncated)'' readmeContent @
     ''\<newline>\<newline>File Structure (partial):\<newline>'' @
     truncateTo 1000 ''... (truncated)'' (fileListOf fileStructure) @
     ''\<newline>'' @ ''\<newline>'' @
       ''Please generate a detailed documentation that includes:\<newline>'' @
       ''1. An explanation of what this project does\<newline>'' @
       ''2. The main technologies and languages used\<newline>'' @
       ''3. Project architecture and structure overview\<newline>'' @
       ''4. How to set up and use the project\<newline>'' @
       ''5. Key features and components\<newline>'' @
       ''6. Any notable patterns or best practices used\<newline>'' @
       ''\<newline>Format the documentation in Markdown.\<newline>''"

text \<open>
  What the code makes of the answer of the completion endpoint: the generated text, or
  the message of the error it throws. Reading \<open>data.candidates\<close> of \<open>null\<close> is a
  \<open>TypeError\<close>, with the engine's message.
\<close>

definition nullReadMessage :: string where
  "nullReadMessage = ''Cannot read properties of null (reading 'candidates')''"

definition generatedTextOf :: "json \<Rightarrow> string + string" where
  "generatedTextOf data =
     (case j_view data of
        JNull \<Rightarrow> Inl nullReadMessage
      | JCompletion (Some generatedContent) \<Rightarrow>
          if generatedContent \<noteq> [] then Inr generatedContent
          else Inl ''No content returned from Gemini API''
      | _ \<Rightarrow> Inl ''No content returned from Gemini API'')"

definition documentationOfReply :: "response outcome \<Rightarrow> string + string" where
  "documentationOfReply reply =
     (case reply of
        Throws message \<Rightarrow> Inl message
      | Returns response \<Rightarrow>
          if \<not> r_ok response then
            Inl (''HTTP error '' @ showNat (r_status response) @
                 (case r_json response of
                    Throws _ \<Rightarrow> []
                  | Returns errorData \<Rightarrow> '': '' @ j_text errorData))
          else
            (case r_json response of
               Throws _ \<Rightarrow> Inl ''Failed to parse Gemini API response''
             | Returns data \<Rightarrow> generatedTextOf data))"

definition generateRepoDocumentation ::
    "string \<Rightarrow> network \<Rightarrow> request list \<Rightarrow> string \<Rightarrow> string \<Rightarrow> string option \<Rightarrow> string \<Rightarrow>
       file_entry list \<Rightarrow> string \<times> request list" where
  "generateRepoDocumentation apiKey net trace extensionStats repoName repoDescription
       readmeContent fileStructure =
     (if apiKey = [] then (missingKeyDocumentation, trace)
      else if \<not> startsWith apiKey ''AIza'' then (invalidKeyDocumentation, trace)
      else
        (let prompt = documentationPrompt repoName repoDescription extensionStats readmeContent
                        fileStructure;
             (reply, trace') = fetch net trace (Post (completionUrl apiKey) prompt 2048)
         in case documentationOfReply reply of
              Inr generatedContent \<Rightarrow> (generatedContent, trace')
            | Inl message \<Rightarrow> (failedDocumentation message, trace')))"

subsection \<open>\<open>getRepositoryFiles\<close>\<close>

definition isImportantFile :: "string \<Rightarrow> bool" where
  "isImportantFile filename \<longleftrightarrow>
     list_ex (\<lambda>f. toLowerCase filename = toLowerCase f)
       [''package.json'', ''tsconfig.json'', ''next.config.js'',
        ''tailwind.config.js'', ''README.md'', ''.env.example'', ''Dockerfile'',
        ''docker-compose.yml'', ''.gitignore''] \<or>
     list_ex (\<lambda>ext. endsWith (toLowerCase filename) ext)
       [''.js'', ''.ts'', ''.jsx'', ''.tsx'', ''.json'', ''.md'', ''.yml'', ''.yaml'',
        ''.toml'', ''.css'']"

definition isImportantDir :: "string \<Rightarrow> bool" where
  "isImportantDir dirname \<longleftrightarrow>
     list_ex (\<lambda>d. toLowerCase dirname = toLowerCase d)
       [''src'', ''app'', ''components'', ''pages'', ''lib'', ''utils'', ''config'',
        ''api'', ''hooks'']"

definition contentsUrl :: "string \<Rightarrow> string \<Rightarrow> string \<Rightarrow> string" where
  "contentsUrl repoOwner repoName path =
     (if path \<noteq> []
      then ''https://api.github.com/repos/'' @ repoOwner @ ''/'' @ repoName @ ''/contents/'' @ path
      else ''https://api.github.com/repos/'' @ repoOwner @ ''/'' @ repoName @ ''/contents'')"

text \<open>
  The helper \<open>fetchDirContents\<close>, with the array \<open>files\<close> it pushes to and the trace as its
  state. Its \<open>try\<close> block covers the whole body, so a rejected \<open>fetch\<close>, a body that does not
  parse and a body that cannot be iterated all end the call quietly. Rows that are neither
  files nor directories are passed over.
\<close>

function fetchDirContents ::
    "network \<Rightarrow> string \<Rightarrow> string \<Rightarrow> nat \<Rightarrow> string \<Rightarrow> nat \<Rightarrow> string list \<times> request list \<Rightarrow>
       string list \<times> request list" where
  "fetchDirContents net repoOwner repoName maxDepth path depth state =
     (if depth > maxDepth then state
      else
        (let req = Get (contentsUrl repoOwner repoName path);
             state' = (fst state, snd state @ [req])
         in case net (snd state) req of
              Throws _ \<Rightarrow> state'
            | Returns response \<Rightarrow>
                if \<not> r_ok response then state'
                else
                  (case r_json response of
                     Throws _ \<Rightarrow> state'
                   | Returns contents \<Rightarrow>
                       (case j_view contents of
                          JListing items \<Rightarrow>
                            foldl (\<lambda>st item.
                                if e_type item = TFile then
                                  (if isImportantFile (e_name item)
                                   then (fst st @ [e_path item], snd st) else st)
                                else if e_type item = TDir then
                                  (if isImportantDir (e_name item) \<or> depth < 1
                                   then fetchDirContents net repoOwner repoName maxDepth
                                          (e_path item) (depth + 1) st
                                   else st)
                                else st)
                              state' items
                        | _ \<Rightarrow> state'))))"
  by pat_completeness auto
termination
  by (relation "measure (\<lambda>(net, repoOwner, repoName, maxDepth, path, depth, state).
        Suc maxDepth - depth)") auto

declare fetchDirContents.simps [simp del]

definition getRepositoryFiles ::
    "network \<Rightarrow> request list \<Rightarrow> string \<Rightarrow> string \<Rightarrow> string list \<times> request list" where
  "getRepositoryFiles net trace repoOwner repoName =
     fetchDirContents net repoOwner repoName 2 [] 0 ([], trace)"

subsection \<open>\<open>queryRepoWithGemini\<close>\<close>

text \<open>
  The state of a query: the requests made so far, and the paths handed to
  \<open>fetchGitHubFileContent\<close> so far (a record kept for the properties; the code has none).
\<close>

record world =
  requests :: "request list"
  fetched :: "string list"

definition fetchContent ::
    "network \<Rightarrow> world \<Rightarrow> string \<Rightarrow> string \<Rightarrow> string \<Rightarrow> string option \<times> world" where
  "fetchContent net w repoOwner repoName filePath =
     (let (fileContent, trace') = fetchGitHubFileContent net (requests w) repoOwner repoName filePath
      in (fileContent, \<lparr>requests = trace', fetched = fetched w @ [filePath]\<rparr>))"

definition missingKeyAnswer :: string where
  "missingKeyAnswer =
     ''I'm sorry, I can't answer your question right now. The'' @
       '' Gemini API key is missing.''"

definition invalidKeyAnswer :: string where
  "invalidKeyAnswer =
     ''I'm sorry, I can't answer your question right now. The'' @
       '' Gemini API key appears to be invalid.''"

definition failedAnswer :: "string \<Rightarrow> string" where
  "failedAnswer message =
     ''I'm sorry, I couldn't process your question. There was an'' @ '' error: '' @
     message"

text \<open>\<open>path.split('.').pop()?.toLowerCase()\<close> and the three \<open>switch\<close> tables of language tags.\<close>

definition fileExtOf :: "string \<Rightarrow> string" where
  "fileExtOf path = toLowerCase (last (splitOn (CHR ''.'') path))"

definition entryLanguage :: "string \<Rightarrow> string" where
  "entryLanguage fileExt =
     (if fileExt = ''js'' \<or> fileExt = ''jsx'' then ''javascript''
      else if fileExt = ''ts'' \<or> fileExt = ''tsx'' then ''typescript''
      else fileExt)"

definition repoWideLanguage :: "string \<Rightarrow> string" where
  "repoWideLanguage fileExt =
     (if fileExt = ''js'' \<or> fileExt = ''jsx'' then ''javascript''
      else if fileExt = ''ts'' \<or> fileExt = ''tsx'' then ''typescript''
      else if fileExt = ''css'' then ''css''
      else if fileExt = ''html'' then ''html''
      else if fileExt = ''json'' then ''json''
      else if fileExt = ''md'' then ''markdown''
      else fileExt)"

definition specificLanguage :: "string \<Rightarrow> string" where
  "specificLanguage fileExt =
     (if fileExt = ''py'' then ''python'' else repoWideLanguage fileExt)"

text \<open>
  A fenced block of the context: the heading, the language tag and the text between the
  fences.
\<close>

definition fenced :: "string \<Rightarrow> string \<Rightarrow> string \<Rightarrow> string" where
  "fenced heading language body =
     ''\<newline>'' @ heading @ '':\<newline>'' @ [CHR 0x60, CHR 0x60, CHR 0x60] @ language @ ''\<newline>'' @
     body @ ''\<newline>'' @ [CHR 0x60, CHR 0x60, CHR 0x60] @ ''\<newline>''"

text \<open>
  The entry-file branch. Both loops stop at the first path whose content is truthy; the
  content goes into the context as it is.
\<close>

definition commonEntryFiles :: "string list" where
  "commonEntryFiles =
     [''app.jsx'', ''app.js'', ''app.tsx'', ''app.ts'', ''index.jsx'', ''index.js'',
      ''index.tsx'', ''index.ts'', ''main.jsx'', ''main.js'', ''main.tsx'',
      ''main.ts'']"

text \<open>\<open>requestedEntryFile.replace('.', '/.')\<close>: the first dot only.\<close>

fun replaceFirstDot :: "string \<Rightarrow> string" where
  "replaceFirstDot [] = []"
| "replaceFirstDot (c # cs) = (if c = CHR ''.'' then ''/.'' @ cs else c # replaceFirstDot cs)"

definition possiblePathsFor :: "string \<Rightarrow> string list" where
  "possiblePathsFor requestedEntryFile =
     [requestedEntryFile, ''src/'' @ requestedEntryFile, ''app/'' @ requestedEntryFile,
      replaceFirstDot requestedEntryFile, ''pages/'' @ requestedEntryFile,
      ''src/pages/'' @ requestedEntryFile, ''src/components/'' @ requestedEntryFile,
      ''components/'' @ requestedEntryFile]"

definition entryPoints :: "string list" where
  "entryPoints =
     [''src/App.jsx'', ''src/App.js'', ''src/App.tsx'', ''App.jsx'', ''App.js'',
      ''src/index.js'', ''src/index.jsx'', ''src/index.ts'', ''src/index.tsx'',
      ''src/main.js'', ''src/main.jsx'', ''src/main.ts'', ''src/main.tsx'',
      ''src/app/page.tsx'', ''src/pages/index.tsx'', ''pages/index.js'']"

fun firstContent ::
    "network \<Rightarrow> string \<Rightarrow> string \<Rightarrow> string list \<Rightarrow> world \<Rightarrow> (string \<times> string) option \<times> world" where
  "firstContent net repoOwner repoName [] w = (None, w)"
| "firstContent net repoOwner repoName (path # paths) w =
     (case fetchContent net w repoOwner repoName path of
        (Some fileContent, w') \<Rightarrow>
          if fileContent \<noteq> [] then (Some (path, fileContent), w')
          else firstContent net repoOwner repoName paths w'
      | (None, w') \<Rightarrow> firstContent net repoOwner repoName paths w')"

definition entryFileBranch ::
    "network \<Rightarrow> world \<Rightarrow> string \<Rightarrow> string \<Rightarrow> string \<Rightarrow> string \<times> bool \<times> world" where
  "entryFileBranch net w repoOwner repoName requestedEntryFile =
     (case firstContent net repoOwner repoName (possiblePathsFor requestedEntryFile) w of
        (Some (path, fileContent), w1) \<Rightarrow>
          (fenced (''Found file: '' @ path) (entryLanguage (fileExtOf path)) fileContent, True, w1)
      | (None, w1) \<Rightarrow>
          (let context =
                 ''\<newline>I couldn't find '' @ requestedEntryFile @
                 '' directly. Let me look for the main entry files in this'' @
                 '' repository:\<newline>\<newline>''
           in case firstContent net repoOwner repoName entryPoints w1 of
                (Some (entryPoint, fileContent), w2) \<Rightarrow>
                  (context @
                   fenced (''Found related entry file: '' @ entryPoint)
                     (entryLanguage (fileExtOf entryPoint)) fileContent, True, w2)
              | (None, w2) \<Rightarrow>
                  (context @
                   ''\<newline>'' @ ''I couldn't find any standard entry files in this'' @
                   '' repository. Please specify a different file to view.\<newline>'',
                   False, w2)))"

text \<open>
  The repo-wide branch: the important files of the repository, the relevant ones among
  them, and for each whose content is truthy a block with the content cut at 2000
  characters.
\<close>

definition isRepoWideQuestion :: "string \<Rightarrow> bool" where
  "isRepoWideQuestion lowercaseQuestion \<longleftrightarrow>
     list_ex (includesStr lowercaseQuestion)
       [''how does the repo'', ''how does this repo'', ''how does it work'',
        ''architecture'', ''implementation'', ''how is implemented'',
        ''fetching repo'', ''fetch repositories'', ''github api'',
        ''github integration'']"

definition analyzeFile ::
    "network \<Rightarrow> string \<Rightarrow> string \<Rightarrow> string \<times> world \<Rightarrow> string \<Rightarrow> string \<times> world" where
  "analyzeFile net repoOwner repoName state filePath =
     (case fetchContent net (snd state) repoOwner repoName filePath of
        (fileContent, w') \<Rightarrow>
          (case truthy fileContent of
             Some content \<Rightarrow>
               (fst state @
                fenced (''File: '' @ filePath) (repoWideLanguage (fileExtOf filePath))
                  (truncateTo 2000 ''...'' content), w')
           | None \<Rightarrow> (fst state, w')))"

text \<open>The block of the repo-wide branch for a path and the text put between its fences.\<close>

definition repoWideBlock :: "string \<times> string \<Rightarrow> string" where
  "repoWideBlock = (\<lambda>(p, body). fenced (''File: '' @ p) (repoWideLanguage (fileExtOf p)) body)"

definition repoWideBranch :: "network \<Rightarrow> world \<Rightarrow> string \<Rightarrow> string \<Rightarrow> string \<Rightarrow> string \<times> world" where
  "repoWideBranch net w repoOwner repoName question =
     (let (importantFiles, trace') = getRepositoryFiles net (requests w) repoOwner repoName;
          filesToAnalyze = selectRelevantFiles importantFiles question
      in foldl (analyzeFile net repoOwner repoName)
           (''\<newline>Analyzing repository architecture...\<newline>\<newline>'', w\<lparr>requests := trace'\<rparr>)
           filesToAnalyze)"

text \<open>
  The specific-file branch. \<open>patternMatches\<close> stands for \<open>requestedFilePaths\<close> as the loop
  over the three regular expressions leaves it; the regular expressions themselves are not
  modelled. The rest of the detection follows.
\<close>

definition commonFiles :: "string list" where
  "commonFiles =
     [''package.json'', ''tsconfig.json'', ''next.config.js'', ''.env.example'',
      ''README.md'', ''tailwind.config.js'', ''src/app/globals.css'',
      ''src/app/page.tsx'', ''src/app/layout.tsx'']"

definition addCommonFile :: "string \<Rightarrow> string list \<Rightarrow> string \<Rightarrow> string list" where
  "addCommonFile lowercaseQuestion requestedFilePaths file =
     (let filename = toLowerCase (last (splitOn (CHR ''/'') file)) in
        if includesStr lowercaseQuestion (toLowerCase filename) \<and>
           \<not> List.member requestedFilePaths file
        then
          (case find (\<lambda>path. \<not> List.member requestedFilePaths path)
                  [file, filename, ''src/'' @ filename, ''app/'' @ filename,
                   ''src/app/'' @ filename] of
             Some path \<Rightarrow> requestedFilePaths @ [path]
           | None \<Rightarrow> requestedFilePaths)
        else requestedFilePaths)"

definition mainEntryPoints :: "string list" where
  "mainEntryPoints =
     [''src/app/page.tsx'', ''src/app/layout.tsx'', ''src/pages/index.tsx'',
      ''src/index.js'', ''src/index.ts'', ''index.js'', ''index.ts'', ''src/main.js'',
      ''src/main.ts'']"

definition pushIfAbsent :: "string list \<Rightarrow> string \<Rightarrow> string list" where
  "pushIfAbsent requestedFilePaths file =
     (if \<not> List.member requestedFilePaths file then requestedFilePaths @ [file]
      else requestedFilePaths)"

definition detectRequestedPaths :: "string list \<Rightarrow> string \<Rightarrow> string list" where
  "detectRequestedPaths patternMatches lowercaseQuestion =
     (let p1 = (if includesStr lowercaseQuestion ''globals.css'' \<and>
                   \<not> list_ex (\<lambda>p. includesStr p ''globals.css'') patternMatches
                then patternMatches @ [''src/app/globals.css''] else patternMatches);
          p2 = (if includesStr lowercaseQuestion ''tailwind'' \<and>
                   includesStr lowercaseQuestion ''config'' \<and>
                   \<not> list_ex (\<lambda>p. includesStr p ''tailwind'') p1
                then p1 @ [''tailwind.config.js''] else p1);
          p3 = foldl (addCommonFile lowercaseQuestion) p2 commonFiles
      in if includesStr lowercaseQuestion ''main file'' \<or>
            includesStr lowercaseQuestion ''entry point'' \<or>
            includesStr lowercaseQuestion ''start file''
         then foldl pushIfAbsent p3 mainEntryPoints else p3)"

definition fetchRequested ::
    "network \<Rightarrow> string \<Rightarrow> string \<Rightarrow> string \<times> world \<Rightarrow> string \<Rightarrow> string \<times> world" where
  "fetchRequested net repoOwner repoName state requestedFilePath =
     (case fetchContent net (snd state) repoOwner repoName requestedFilePath of
        (fileContent, w') \<Rightarrow>
          (case truthy fileContent of
             Some content \<Rightarrow>
               (fst state @
                fenced (''File content for '' @ requestedFilePath)
                  (specificLanguage (fileExtOf requestedFilePath)) content, w')
           | None \<Rightarrow>
               (fst state @
                ''\<newline>I tried to fetch the content of '' @ requestedFilePath @
                '', but couldn't access it. It might not exist or require'' @
                '' authentication.\<newline>'', w')))"

definition specificFileBranch ::
    "network \<Rightarrow> world \<Rightarrow> string \<Rightarrow> string \<Rightarrow> string list \<Rightarrow> string \<Rightarrow> string \<times> world" where
  "specificFileBranch net w repoOwner repoName patternMatches lowercaseQuestion =
     (let requestedFilePaths = detectRequestedPaths patternMatches lowercaseQuestion;
          filesToFetch = take 3 requestedFilePaths
      in if length filesToFetch > 0
         then foldl (fetchRequested net repoOwner repoName) ([], w) filesToFetch
         else if includesStr lowercaseQuestion ''show me'' \<or>
                 includesStr lowercaseQuestion ''what's in'' \<or>
                 includesStr lowercaseQuestion ''what is in''
         then (''\<newline>'' @ ''You appear to be asking about a file, but I couldn't'' @
               '' determine which specific file you want to see. Please'' @
               '' specify the filename, for example: '' @ [CHR 0x22] @
               ''Show me package.json'' @ [CHR 0x22] @ '' or '' @ [CHR 0x22] @
               ''What's in src/app/page.tsx'' @ [CHR 0x22] @ ''.\<newline>'', w)
         else ([], w))"

text \<open>
  The context of a question: the entry-file branch when the question names a common entry
  file; the repo-wide branch when that found nothing and the question is repo-wide; the
  specific-file branch otherwise.
\<close>

definition specificFileContextOf ::
    "network \<Rightarrow> world \<Rightarrow> string \<Rightarrow> string \<Rightarrow> string list \<Rightarrow> string \<Rightarrow> string \<times> world" where
  "specificFileContextOf net w repoOwner repoName patternMatches question =
     (let lowercaseQuestion = toLowerCase question;
          (context, repoAnalysisPerformed, w1) =
            (case find (\<lambda>file. includesStr lowercaseQuestion (toLowerCase file))
                    commonEntryFiles of
               None \<Rightarrow> ([], False, w)
             | Some requestedEntryFile \<Rightarrow>
                 entryFileBranch net w repoOwner repoName requestedEntryFile)
      in if repoAnalysisPerformed then (context, w1)
         else if isRepoWideQuestion lowercaseQuestion then
           (case repoWideBranch net w1 repoOwner repoName question of
              (added, w2) \<Rightarrow> (context @ added, w2))
         else
           (case specificFileBranch net w1 repoOwner repoName patternMatches
                   lowercaseQuestion of
              (added, w2) \<Rightarrow> (context @ added, w2)))"

text \<open>
  The two icons of the structure listing are string literals outside the 8-bit range; they
  are kept as the bytes the source file holds for them.
\<close>

definition dirIcon :: string where
  "dirIcon = [CHR 0xC3, CHR 0xB0, CHR 0xC5, CHR 0xB8, CHR 0xE2, CHR 0x80, CHR 0x9C]"

definition fileIcon :: string where
  "fileIcon =
     [CHR 0xC3, CHR 0xB0, CHR 0xC5, CHR 0xB8, CHR 0xE2, CHR 0x80, CHR 0x9C, CHR 0xE2, CHR 0x80,
      CHR 0x9E]"

definition structureContextOf :: "file_entry list option \<Rightarrow> string" where
  "structureContextOf fileStructure =
     (case fileStructure of
        None \<Rightarrow> []
      | Some files \<Rightarrow>
          if length files > 0 then
            foldl (\<lambda>structureContext file.
                structureContext @ ''- '' @ (if e_type file = TDir then dirIcon else fileIcon) @
                '' '' @ entryKey file @ ''\<newline>'')
              ''Repository structure:\<newline>'' files
          else [])"

definition queryPrompt ::
    "string \<Rightarrow> string \<Rightarrow> string option \<Rightarrow> string \<Rightarrow> string option \<Rightarrow> string \<Rightarrow> string \<Rightarrow> string" where
  "queryPrompt repoName repoOwner repoDescription structureContext fileContext
       specificFileContext question =
     ''\<newline>'' @ ''You are a helpful AI assistant that answers questions about'' @
       '' a GitHub repository.\<newline>'' @
       ''You have access to the repository's content and can analyze'' @
       '' code files when needed.\<newline>'' @ ''\<newline>Repository Name: '' @
     repoName @
     ''\<newline>Repository Owner: '' @
     repoOwner @ ''\<newline>'' @
     (case repoDescription of
        None \<Rightarrow> []
      | Some d \<Rightarrow> if d \<noteq> [] then ''Repository Description: '' @ d else []) @
     ''\<newline>\<newline>'' @ structureContext @ ''\<newline>'' @
     (case fileContext of
        None \<Rightarrow> []
      | Some readme \<Rightarrow>
          if readme \<noteq> [] then ''README Content:\<newline>'' @ readme @ ''\<newline>'' else []) @
     ''\<newline>'' @ specificFileContext @
     ''\<newline>\<newline>User Question: '' @
     question @
     ''\<newline>'' @ ''\<newline>'' @
       ''Please provide a helpful, accurate, and concise answer'' @
       '' based on the information available.\<newline>'' @
       ''If the user is asking about repository functionality or'' @
       '' architecture, analyze the provided files to explain how'' @
       '' the code works.\<newline>'' @
       ''If the user is asking about a specific implementation'' @
       '' detail, point to the relevant code sections.\<newline>'' @
       ''If you don't have enough information, explain what'' @
       '' additional files would be needed to answer the question.\<newline>''"

definition answerOfReply :: "response outcome \<Rightarrow> string + string" where
  "answerOfReply reply =
     (case reply of
        Throws message \<Rightarrow> Inl message
      | Returns response \<Rightarrow>
          if \<not> r_ok response then Inl (''HTTP error '' @ showNat (r_status response))
          else
            (case r_json response of
               Throws message \<Rightarrow> Inl message
             | Returns data \<Rightarrow> generatedTextOf data))"

definition queryRepoWithGemini ::
    "string \<Rightarrow> network \<Rightarrow> world \<Rightarrow> string list \<Rightarrow> string \<Rightarrow> string \<Rightarrow> string \<Rightarrow> string option \<Rightarrow>
       string option \<Rightarrow> file_entry list option \<Rightarrow> string \<times> world" where
  "queryRepoWithGemini apiKey net w patternMatches question repoName repoOwner repoDescription
       fileContext fileStructure =
     (if apiKey = [] then (missingKeyAnswer, w)
      else if \<not> startsWith apiKey ''AIza'' then (invalidKeyAnswer, w)
      else
        (let (specificFileContext, w1) =
               specificFileContextOf net w repoOwner repoName patternMatches question;
             prompt = queryPrompt repoName repoOwner repoDescription
                        (structureContextOf fileStructure) fileContext specificFileContext
                        question;
             (reply, trace') = fetch net (requests w1) (Post (completionUrl apiKey) prompt 4096)
         in case answerOfReply reply of
              Inr answer \<Rightarrow> (answer, w1\<lparr>requests := trace'\<rparr>)
            | Inl message \<Rightarrow> (failedAnswer message, w1\<lparr>requests := trace'\<rparr>)))"

section \<open>Repository structure acquisition\<close>

text \<open>
  The state of the documentation view that the fetchers write: the README text (a
  JavaScript string, as UTF-16 code units), the flat listing \<open>fileStructure\<close>, whose rows are
  file entries or, after a failure, an object with a \<open>message\<close>, and the trace of requests.
  Toasts, console output and the text made by \<open>generateBasicDocumentation\<close> are left out;
  the optional token only adds headers to the requests.
\<close>

datatype structure_row = FileRow file_entry | MessageRow string

record view_state =
  v_readme :: "nat list option"
  v_fileStructure :: "structure_row list"
  v_requests :: "request list"

definition repoApi :: "string \<Rightarrow> string \<Rightarrow> string" where
  "repoApi owner repo = ''https://api.github.com/repos/'' @ owner @ ''/'' @ repo"

fun findIndex :: "('a \<Rightarrow> bool) \<Rightarrow> 'a list \<Rightarrow> nat option" where
  "findIndex P [] = None"
| "findIndex P (x # xs) = (if P x then Some 0 else map_option Suc (findIndex P xs))"

text \<open>
  The updater given to \<open>setFileStructure\<close>: the row whose \<open>path\<close> is that of the directory
  is replaced by the directory's contents (\<open>splice(dirIndex, 1, ...dirContents)\<close>); without
  such a row the contents are appended.
\<close>

definition hasPath :: "string \<Rightarrow> structure_row \<Rightarrow> bool" where
  "hasPath path row = (case row of FileRow file \<Rightarrow> e_path file = path | MessageRow _ \<Rightarrow> False)"

definition spliceContents :: "string \<Rightarrow> file_entry list \<Rightarrow> structure_row list \<Rightarrow> structure_row list" where
  "spliceContents path dirContents prevFiles =
     (case findIndex (hasPath path) prevFiles of
        Some dirIndex \<Rightarrow>
          take dirIndex prevFiles @ map FileRow dirContents @ drop (Suc dirIndex) prevFiles
      | None \<Rightarrow> prevFiles @ map FileRow dirContents)"

definition dirUrl :: "string \<Rightarrow> string \<Rightarrow> string \<Rightarrow> string" where
  "dirUrl owner repo path = repoApi owner repo @ ''/contents/'' @ path"

text \<open>
  \<open>fetchDirectoryContents\<close>. After its request it calls itself on the first two
  subdirectories of what came back, and on theirs, with no bound on the depth: whether it
  returns depends on the answers of the network, so the result is an option and \<open>None\<close>
  stands for a call that never returns. A failed request, a rejected \<open>fetch\<close> and a body
  that is no listing end the call (the last in the \<open>catch\<close> block, the state being kept).
\<close>

partial_function (option) fetchDirectoryContents ::
    "network \<Rightarrow> string \<Rightarrow> string \<Rightarrow> string \<Rightarrow> view_state \<Rightarrow> view_state option" where
  "fetchDirectoryContents net owner repo path st =
     (let req = Get (dirUrl owner repo path);
          st1 = st\<lparr>v_requests := v_requests st @ [req]\<rparr>
      in case net (v_requests st) req of
           Throws _ \<Rightarrow> Some st1
         | Returns response \<Rightarrow>
             if \<not> r_ok response then Some st1
             else
               (case r_json response of
                  Throws _ \<Rightarrow> Some st1
                | Returns dirContents \<Rightarrow>
                    (case j_view dirContents of
                       JListing items \<Rightarrow>
                         (let st2 = st1\<lparr>v_fileStructure :=
                                          spliceContents path items (v_fileStructure st1)\<rparr>
                          in case take 2 (filter (\<lambda>item. e_type item = TDir) items) of
                               [] \<Rightarrow> Some st2
                             | [subdir] \<Rightarrow> fetchDirectoryContents net owner repo (e_path subdir) st2
                             | subdir # subdir' # _ \<Rightarrow>
                                 Option.bind
                                   (fetchDirectoryContents net owner repo (e_path subdir) st2)
                                   (fetchDirectoryContents net owner repo (e_path subdir')))
                     | _ \<Rightarrow> Some st1)))"

text \<open>
  \<open>fetchRepositoryStructure\<close>: the listing at \<open>path\<close>; at the root the listing becomes the
  state and the first two of the directories named \<open>src\<close>, \<open>app\<close>, \<open>pages\<close> or \<open>components\<close>
  are expanded. A refused request leaves a message row for a rate limit, a rejected token
  or a missing repository. A body that is no array would become the state and then end the
  call in its \<open>catch\<close> block; no row stands for such a body, and the listing is kept.
\<close>

definition structureFailure :: "string \<Rightarrow> string \<Rightarrow> response \<Rightarrow> structure_row list \<Rightarrow> structure_row list" where
  "structureFailure owner repo response prevFiles =
     (let responseText = (case r_text response of Throws _ \<Rightarrow> [] | Returns t \<Rightarrow> t) in
        if r_status response = 403 then
          (if includesStr responseText ''rate limit'' \<or>
              includesStr responseText ''API rate limit exceeded''
           then [MessageRow ''GitHub API rate limit exceeded'']
           else if includesStr responseText ''Bad credentials'' \<or>
                   includesStr responseText ''authorization''
           then [MessageRow ''GitHub Authentication Error: Invalid Token'']
           else prevFiles)
        else if r_status response = 404
        then [MessageRow (''Repository '' @ owner @ ''/'' @ repo @ '' not found'')]
        else prevFiles)"

definition isImportantTopLevel :: "file_entry \<Rightarrow> bool" where
  "isImportantTopLevel item \<longleftrightarrow>
     e_type item = TDir \<and> List.member [''src'', ''app'', ''pages'', ''components''] (e_name item)"

definition fetchRepositoryStructure ::
    "network \<Rightarrow> string \<Rightarrow> string \<Rightarrow> string \<Rightarrow> view_state \<Rightarrow> view_state option" where
  "fetchRepositoryStructure net owner repo path st =
     (let req = Get (if path \<noteq> [] then dirUrl owner repo path
                     else repoApi owner repo @ ''/contents'');
          st1 = st\<lparr>v_requests := v_requests st @ [req]\<rparr>
      in case net (v_requests st) req of
           Throws _ \<Rightarrow> Some st1
         | Returns contentsResponse \<Rightarrow>
             if \<not> r_ok contentsResponse
             then Some (st1\<lparr>v_fileStructure :=
                               structureFailure owner repo contentsResponse (v_fileStructure st1)\<rparr>)
             else
               (case r_json contentsResponse of
                  Throws _ \<Rightarrow> Some st1
                | Returns contentsData \<Rightarrow>
                    if path = [] then
                      (case j_view contentsData of
                         JListing items \<Rightarrow>
                           (let st2 = st1\<lparr>v_fileStructure := map FileRow items\<rparr>
                            in case take 2 (filter isImportantTopLevel items) of
                                 [] \<Rightarrow> Some st2
                               | [dir] \<Rightarrow> fetchDirectoryContents net owner repo (e_path dir) st2
                               | dir # dir' # _ \<Rightarrow>
                                   Option.bind
                                     (fetchDirectoryContents net owner repo (e_path dir) st2)
                                     (fetchDirectoryContents net owner repo (e_path dir')))
                       | _ \<Rightarrow> Some st1)
                    else Some st1))"

text \<open>
  \<open>fetchRepositoryData\<close>, the effect of the view: the README request, then the structure.
  An exception before the structure is fetched (a rejected \<open>fetch\<close>, a body that does not
  parse) is caught by the outer \<open>try\<close>, and the structure is not fetched. A \<open>content\<close> that
  is no string makes \<open>safeBase64Decode\<close> throw at \<open>replace\<close>, before its own \<open>try\<close>; the
  inner \<open>catch\<close> of the effect then sets the error text.
\<close>

definition readmeOf :: "json \<Rightarrow> nat list" where
  "readmeOf readmeData =
     (case j_view readmeData of
        JFile (StringValue c) _ \<Rightarrow> safeBase64Decode c
      | _ \<Rightarrow> jsString
          (''# Error Decoding README'' @ ''\<newline>\<newline>'' @
           ''There was an error decoding the README content for this repository.''))"

definition fetchRepositoryData :: "network \<Rightarrow> string \<Rightarrow> string \<Rightarrow> view_state \<Rightarrow> view_state option" where
  "fetchRepositoryData net repoOwner repoName st =
     (let req = Get (repoApi repoOwner repoName @ ''/readme'');
          st1 = st\<lparr>v_requests := v_requests st @ [req]\<rparr>
      in case net (v_requests st) req of
           Throws _ \<Rightarrow> Some st1
         | Returns readmeResponse \<Rightarrow>
             if r_ok readmeResponse then
               (case r_json readmeResponse of
                  Throws _ \<Rightarrow> Some st1
                | Returns readmeData \<Rightarrow>
                    fetchRepositoryStructure net repoOwner repoName []
                      (st1\<lparr>v_readme := Some (readmeOf readmeData)\<rparr>))
             else
               fetchRepositoryStructure net repoOwner repoName []
                 (st1\<lparr>v_readme := Some (jsString
                    (''# No README found'' @ ''\<newline>\<newline>'' @
                     ''This repository doesn't have a README file.''))\<rparr>))"

section \<open>Example inputs\<close>

text \<open>Networks and listings at which the properties below are instantiated.\<close>

definition okTextResponse :: "string \<Rightarrow> response" where
  "okTextResponse s =
     \<lparr>r_ok = True, r_status = 200, r_json = Throws ''SyntaxError'', r_text = Returns s\<rparr>"

definition notFoundResponse :: response where
  "notFoundResponse =
     \<lparr>r_ok = False, r_status = 404,
      r_json = Returns \<lparr>j_text = ''{}'', j_view = JOther\<rparr>,
      r_text = Returns ''Not Found''\<rparr>"

definition masterOnly :: network where
  "masterOnly trace req =
     (if req = Get ''https://raw.githubusercontent.com/o/r/master/a.ts''
      then Returns (okTextResponse ''x'') else Returns notFoundResponse)"

text \<open>
  The answer of the contents API for a file that holds \<open>hello\<close>, its base64 text broken by
  line feeds as the API sends it; and networks that serve one source only, none, or
  reject every request.
\<close>

definition helloContent :: string where
  "helloContent = ''aGVs\<newline>bG8=\<newline>''"

definition helloJson :: json where
  "helloJson =
     \<lparr>j_text = ''{'' @ [CHR 0x22] @ ''content'' @ [CHR 0x22] @ '':'' @ [CHR 0x22] @
                 ''aGVs'' @ [CHR 0x5C] @ ''nbG8='' @ [CHR 0x5C] @ ''n'' @ [CHR 0x22] @ '','' @
                 [CHR 0x22] @ ''encoding'' @ [CHR 0x22] @ '':'' @ [CHR 0x22] @ ''base64'' @
                 [CHR 0x22] @ ''}'',
      j_view = JFile (StringValue helloContent) (Some ''base64'')\<rparr>"

definition helloFileResponse :: response where
  "helloFileResponse =
     \<lparr>r_ok = True, r_status = 200, r_json = Returns helloJson, r_text = Returns (j_text helloJson)\<rparr>"

definition contentsApiOnly :: network where
  "contentsApiOnly trace req =
     (if req = Get ''https://api.github.com/repos/o/r/contents/a.ts''
      then Returns helloFileResponse else Returns notFoundResponse)"

definition mainOnly :: network where
  "mainOnly trace req =
     (if req = Get ''https://raw.githubusercontent.com/o/r/main/a.ts''
      then Returns (okTextResponse ''y'') else Returns notFoundResponse)"

definition nowhere :: network where
  "nowhere trace req = Returns notFoundResponse"

definition offline :: network where
  "offline trace req = Throws ''Failed to fetch''"
text \<open>
  A repository whose directory \<open>src\<close> holds a chain of \<open>n\<close> nested directories \<open>d\<close>, and has
  no README: the listing of the root is \<open>src\<close>, the listing of \<open>src/d/.../d\<close> with fewer
  than \<open>n\<close> segments \<open>d\<close> is one more directory \<open>d\<close>, and every other listing is empty.
\<close>

definition chainPath :: "nat \<Rightarrow> string" where
  "chainPath k = ''src'' @ concat (replicate k ''/d'')"

definition listingResponse :: "file_entry list \<Rightarrow> response" where
  "listingResponse items =
     \<lparr>r_ok = True, r_status = 200,
      r_json = Returns \<lparr>j_text = [], j_view = JListing items\<rparr>, r_text = Returns []\<rparr>"

definition dirEntry :: "string \<Rightarrow> string \<Rightarrow> file_entry" where
  "dirEntry path name = \<lparr>e_path = path, e_name = name, e_type = TDir, e_size = None\<rparr>"

definition deepRepo :: "nat \<Rightarrow> network" where
  "deepRepo n trace req =
     (if req = Get (repoApi ''o'' ''r'' @ ''/readme'') then Returns notFoundResponse
      else if req = Get (repoApi ''o'' ''r'' @ ''/contents'')
      then Returns (listingResponse [dirEntry ''src'' ''src''])
      else
        (case find (\<lambda>k. req = Get (dirUrl ''o'' ''r'' (chainPath k))) [0..<n] of
           Some k \<Rightarrow> Returns (listingResponse [dirEntry (chainPath (Suc k)) ''d''])
         | None \<Rightarrow> Returns (listingResponse [])))"

definition emptyView :: view_state where
  "emptyView = \<lparr>v_readme = None, v_fileStructure = [], v_requests = []\<rparr>"

definition bigFileNet :: network where
  "bigFileNet trace req =
     (if req = Get ''https://raw.githubusercontent.com/o/r/main/notes.txt''
      then Returns (okTextResponse (replicate 2500 (CHR ''x''))) else Returns notFoundResponse)"

definition emptyWorld :: world where
  "emptyWorld = \<lparr>requests = [], fetched = []\<rparr>"

text \<open>A listing with a file and a directory at the top level and a file below the directory.\<close>

definition topLevelListing :: "file_entry list" where
  "topLevelListing =
     [\<lparr>e_path = ''README.md'', e_name = ''README.md'', e_type = TFile, e_size = Some 12\<rparr>,
      \<lparr>e_path = ''src'', e_name = ''src'', e_type = TDir, e_size = None\<rparr>,
      \<lparr>e_path = ''src/a.ts'', e_name = ''a.ts'', e_type = TFile, e_size = Some 40\<rparr>]"

section \<open>Properties of the relevance selector\<close>

lemma addKeyFile_subset:
  "set acc \<subseteq> S \<Longrightarrow> f \<in> S \<Longrightarrow> set (addKeyFile acc f) \<subseteq> S"
  by (simp add: addKeyFile_def)

lemma foldl_addKeyFile_subset:
  "set acc \<subseteq> S \<Longrightarrow> set fs \<subseteq> S \<Longrightarrow> set (foldl addKeyFile acc fs) \<subseteq> S"
  by (induction fs arbitrary: acc) (simp_all add: addKeyFile_subset)

lemma set_take_subset_trans: "set xs \<subseteq> S \<Longrightarrow> set (take n xs) \<subseteq> S"
  using set_take_subset by fastforce

lemma selectRelevantFiles_initial_subset:
  "set (if isGithubQuestion q
        then take 5 (sortByRelevance (filter potentialGithubFile files))
        else take 5 (filter (matchesCategories cats) files)) \<subseteq> set files"
  by (auto simp: sortByRelevance_def dest: in_set_takeD)

text \<open>
  C1. For every question and every list of paths, \<open>selectRelevantFiles\<close> returns at most
  five paths, and each of them is an element of the input list.
\<close>

theorem selectRelevantFiles_bounded_members:
  "length (selectRelevantFiles files question) \<le> 5 \<and>
   set (selectRelevantFiles files question) \<subseteq> set files"
proof
  show "length (selectRelevantFiles files question) \<le> 5"
    by (simp add: selectRelevantFiles_def Let_def)
next
  let ?q = "toLowerCase question"
  let ?r = "if isGithubQuestion ?q
            then take 5 (sortByRelevance (filter potentialGithubFile files))
            else take 5 (filter (matchesCategories (relevantCategoriesOf ?q)) files)"
  have r: "set ?r \<subseteq> set files"
    by (rule selectRelevantFiles_initial_subset)
  have p: "set (if \<not> List.member ?r ''package.json'' \<and> List.member files ''package.json''
                then ?r @ [''package.json''] else ?r) \<subseteq> set files"
    using r by auto
  have "set (foldl addKeyFile
               (if \<not> List.member ?r ''package.json'' \<and> List.member files ''package.json''
                then ?r @ [''package.json''] else ?r) files) \<subseteq> set files"
    by (rule foldl_addKeyFile_subset [OF p subset_refl])
  then show "set (selectRelevantFiles files question) \<subseteq> set files"
    using r unfolding selectRelevantFiles_def Let_def
    by (auto dest!: in_set_takeD)
qed

theorem selectRelevantFiles_bounded_members_witness:
  "length (selectRelevantFiles [''src/lib/github.ts'', ''package.json''] ''GitHub API?'') \<le> 5 \<and>
   set (selectRelevantFiles [''src/lib/github.ts'', ''package.json''] ''GitHub API?'')
     \<subseteq> set [''src/lib/github.ts'', ''package.json'']"
  by (rule selectRelevantFiles_bounded_members)

section \<open>The base64 round trip\<close>

lemma base64_chars_table:
  "list_all (\<lambda>n. sextetOf (encodeSextet n) = Some n \<and> encodeSextet n \<noteq> CHR ''='' \<and>
       \<not> isJsWhitespace (encodeSextet n) \<and> \<not> isAsciiWhitespace (encodeSextet n) \<and>
       encodeSextet n \<noteq> CHR ''-'' \<and> encodeSextet n \<noteq> CHR ''_'') [0..<64]"
  by code_simp

lemma hex_table: "list_all (\<lambda>n. hexValue (hexDigits ! n) = Some n) [0..<16]"
  by code_simp

lemma base64_chars:
  assumes "n < 64"
  shows "sextetOf (encodeSextet n) = Some n" "encodeSextet n \<noteq> CHR ''=''"
    "\<not> isJsWhitespace (encodeSextet n)" "\<not> isAsciiWhitespace (encodeSextet n)"
    "encodeSextet n \<noteq> CHR ''-''" "encodeSextet n \<noteq> CHR ''_''"
  using assms base64_chars_table unfolding list_all_iff by auto

lemma hexValue_hexDigits: "n < 16 \<Longrightarrow> hexValue (hexDigits ! n) = Some n"
  using hex_table unfolding list_all_iff by auto

lemma sextet_bounds:
  fixes a b c :: nat
  shows "a < 256 \<Longrightarrow> a div 4 < 64" "b < 256 \<Longrightarrow> (a mod 4) * 16 + b div 16 < 64"
    "c < 256 \<Longrightarrow> (b mod 16) * 4 + c div 64 < 64" "c mod 64 < 64"
    "(b mod 16) * 4 < 64" "(a mod 4) * 16 < 64"
  by arith+

lemma small_div:
  fixes b c :: nat
  shows "b < 256 \<Longrightarrow> b div 16 < 16" "c < 256 \<Longrightarrow> c div 64 < 4"
  by arith+

lemma sextet_recombine:
  fixes a b c :: nat
  assumes "b < 256" "c < 256"
  shows "a div 4 * 4 + ((a mod 4) * 16 + b div 16) div 16 = a"
    "(((a mod 4) * 16 + b div 16) mod 16) * 16 + ((b mod 16) * 4 + c div 64) div 4 = b"
    "(((b mod 16) * 4 + c div 64) mod 4) * 64 + c mod 64 = c"
    "(((a mod 4) * 16 + b div 16) mod 16) * 16 + ((b mod 16) * 4) div 4 = b"
  using small_div(1) [OF assms(1)] small_div(2) [OF assms(2)] by simp_all

lemma sextet_recombine_single: "(a::nat) div 4 * 4 + ((a mod 4) * 16) div 16 = a"
  by simp

lemma bytesToSextets_bound:
  "\<forall>b\<in>set bs. b < 256 \<Longrightarrow> \<forall>x\<in>set (bytesToSextets bs). x < 64"
  by (induction bs rule: bytesToSextets.induct) (simp_all add: sextet_bounds)

lemma sextetsToBytes_bytesToSextets:
  "\<forall>b\<in>set bs. b < 256 \<Longrightarrow> sextetsToBytes (bytesToSextets bs) = bs"
proof (induction bs rule: bytesToSextets.induct)
  case (1 a b c rest)
  then have b: "b < 256" and c: "c < 256" and ih: "sextetsToBytes (bytesToSextets rest) = rest"
    by simp_all
  show ?case
    by (simp only: bytesToSextets.simps sextetsToBytes.simps sextet_recombine [OF b c] ih)
next
  case (2 a b)
  then have b: "b < 256" by simp
  show ?case
    by (simp only: bytesToSextets.simps sextetsToBytes.simps sextet_recombine [OF b b])
next
  case (3 a)
  show ?case
    by (simp only: bytesToSextets.simps sextetsToBytes.simps sextet_recombine_single)
next
  case 4
  show ?case by simp
qed

text \<open>Three bytes give four sextets; one or two left-over bytes give two or three.\<close>

lemma length_bytesToSextets_mod:
  "length (bytesToSextets bs) mod 4 =
     (if length bs mod 3 = 0 then 0 else Suc (length bs mod 3))"
proof (induction bs rule: bytesToSextets.induct)
  case (1 a b c rest)
  have "length (a # b # c # rest) mod 3 = length rest mod 3"
    by simp
  moreover have "length (bytesToSextets (a # b # c # rest)) mod 4 =
      length (bytesToSextets rest) mod 4"
    by simp
  ultimately show ?case using 1 by presburger
qed simp_all

lemma those_sextetOf_encode:
  "\<forall>x\<in>set sx. x < 64 \<Longrightarrow> those (map sextetOf (map encodeSextet sx)) = Some sx"
  by (induction sx) (simp_all add: base64_chars(1))

lemma endsWith_last: "endsWith s (ps @ [q]) \<Longrightarrow> s \<noteq> [] \<and> last s = q"
  by (cases s rule: rev_cases) (simp_all add: endsWith_def)

lemma endsWith_snoc1: "endsWith (xs @ [c]) [p] \<longleftrightarrow> c = p"
  by (simp add: endsWith_def)

lemma endsWith_snoc2: "endsWith (xs @ [c1, c2]) [p1, p2] \<longleftrightarrow> c1 = p1 \<and> c2 = p2"
  by (auto simp: endsWith_def)

lemma endsWith_padding_free:
  assumes "\<forall>x\<in>set sx. x < 64"
  shows "\<not> endsWith (map encodeSextet sx) (ps @ ''='')"
proof
  assume "endsWith (map encodeSextet sx) (ps @ ''='')"
  then have ne: "map encodeSextet sx \<noteq> []" and l: "last (map encodeSextet sx) = CHR ''=''"
    using endsWith_last by blast+
  from ne have "sx \<noteq> []" by simp
  then have "last (map encodeSextet sx) = encodeSextet (last sx)" "last sx \<in> set sx"
    by (simp_all add: last_map)
  with l assms base64_chars(2) show False by metis
qed

lemma stripPadding_encoded:
  assumes sx: "\<forall>x\<in>set sx. x < 64"
      and len: "(length sx + p) mod 4 = 0" and p: "p \<le> 2"
  shows "stripPadding (map encodeSextet sx @ replicate p (CHR ''='')) = map encodeSextet sx"
proof -
  let ?m = "map encodeSextet sx"
  consider "p = 0" | "p = 1" | "p = 2" using p by arith
  then show ?thesis
  proof cases
    case 1
    have "\<not> endsWith ?m ''==''" "\<not> endsWith ?m ''=''"
      using endsWith_padding_free [OF sx, of "''=''"] endsWith_padding_free [OF sx, of "[]"]
      by simp_all
    then show ?thesis using 1 by (simp add: stripPadding_def)
  next
    case 2
    have a: "\<not> endsWith (?m @ ''='') ''==''"
    proof (cases ?m rule: rev_cases)
      case Nil
      then show ?thesis by (simp add: endsWith_def)
    next
      case (snoc ys y)
      have "\<not> endsWith ?m ''=''"
        using endsWith_padding_free [OF sx, of "[]"] by simp
      then have "y \<noteq> CHR ''=''" using snoc by (simp add: endsWith_snoc1)
      then show ?thesis using snoc endsWith_snoc2 [of ys y "CHR ''=''"] by simp
    qed
    have b: "endsWith (?m @ ''='') ''=''" by (simp add: endsWith_snoc1)
    show ?thesis using 2 a b len by (simp add: stripPadding_def)
  next
    case 3
    have "endsWith (?m @ ''=='') ''==''"
      using endsWith_snoc2 [of ?m "CHR ''=''" "CHR ''=''"] by simp
    moreover have "replicate p (CHR ''='') = ''==''"
      using 3 by (simp add: numeral_2_eq_2)
    moreover have "butlast (butlast (?m @ ''=='')) = ?m"
      by (simp add: butlast_append)
    ultimately show ?thesis using len 3 by (simp add: stripPadding_def)
  qed
qed

lemma mod3_cases:
  fixes n :: nat
  obtains "n mod 3 = 0" | "n mod 3 = 1" | "n mod 3 = 2"
  by (metis One_nat_def Suc_1 less_Suc_eq less_nat_zero_code mod_less_divisor numeral_3_eq_3
      zero_less_Suc)

lemma base64Encode_padding:
  "(length (bytesToSextets bs) + (3 - length bs mod 3) mod 3) mod 4 = 0"
proof -
  have "(length (bytesToSextets bs) mod 4 + (3 - length bs mod 3) mod 3) mod 4 = 0"
    unfolding length_bytesToSextets_mod
    by (cases "length bs" rule: mod3_cases) simp_all
  then show ?thesis by (simp add: mod_add_left_eq)
qed

lemma padding_le_2: "(3 - (n::nat) mod 3) mod 3 \<le> 2"
  by (cases n rule: mod3_cases) simp_all

lemma atob_base64Encode:
  assumes "\<forall>b\<in>set bs. b < 256"
  shows "atob (base64Encode bs) = Some (map char_of bs)"
proof -
  let ?sx = "bytesToSextets bs"
  have sx: "\<forall>x\<in>set ?sx. x < 64"
    using assms by (rule bytesToSextets_bound)
  have eq: "\<not> isAsciiWhitespace (CHR ''='')"
    by (simp add: isAsciiWhitespace_def)
  have ws: "filter (\<lambda>c. \<not> isAsciiWhitespace c) (base64Encode bs) = base64Encode bs"
    unfolding filter_id_conv base64Encode_def using sx eq base64_chars(4) by auto
  have sp: "stripPadding (base64Encode bs) = map encodeSextet ?sx"
    unfolding base64Encode_def
    by (rule stripPadding_encoded [OF sx base64Encode_padding padding_le_2])
  have l: "length ?sx mod 4 \<noteq> 1"
    unfolding length_bytesToSextets_mod by simp
  show ?thesis
    using l by (simp add: atob_def ws sp those_sextetOf_encode [OF sx]
        sextetsToBytes_bytesToSextets [OF assms] del: map_map)
qed

lemma percentEncode_byte:
  assumes "b < 256"
  shows "percentEncode (char_of b) = [CHR ''%'', hexDigits ! (b div 16), hexDigits ! (b mod 16)]"
proof (cases "b < 16")
  case True
  then have "toString16 b = [hexDigits ! b]"
    by (simp add: toString16.simps [of b])
  moreover have "CHR ''0'' = hexDigits ! 0"
    by (simp add: hexDigits_def)
  ultimately show ?thesis
    using True assms by (simp add: percentEncode_def sliceLast2_def)
next
  case False
  have "b div 16 < 16" using assms by arith
  then have "toString16 (b div 16) = [hexDigits ! (b div 16)]"
    by (simp add: toString16.simps [of "b div 16"])
  then have "toString16 b = [hexDigits ! (b div 16), hexDigits ! (b mod 16)]"
    using False by (simp add: toString16.simps [of b])
  then show ?thesis
    using assms by (simp add: percentEncode_def sliceLast2_def)
qed

lemma unescapeTokens_percentEncode:
  "\<forall>b\<in>set bs. b < 256 \<Longrightarrow>
   unescapeTokens (concat (map percentEncode (map char_of bs))) = Some (map Escaped bs)"
proof (induction bs)
  case Nil
  show ?case by simp
next
  case (Cons b bs)
  then have b: "b < 256" and ih: "unescapeTokens (concat (map percentEncode (map char_of bs))) =
      Some (map Escaped bs)"
    by simp_all
  have h: "hexValue (hexDigits ! (b div 16)) = Some (b div 16)"
      "hexValue (hexDigits ! (b mod 16)) = Some (b mod 16)"
    using b by (simp_all add: hexValue_hexDigits less_mult_imp_div_less)
  show ?case
    by (simp add: percentEncode_byte [OF b] h ih del: map_map)
qed

lemma utf8Tokens_ascii:
  "\<forall>b\<in>set bs. b < 128 \<Longrightarrow> utf8Tokens (map Escaped bs) = Some bs"
  by (induction bs) simp_all

lemma decodeURIComponent_percentEncode_ascii:
  assumes "\<forall>b\<in>set bs. b < 128"
  shows "decodeURIComponent (concat (map percentEncode (map char_of bs))) = Some bs"
proof -
  have "\<forall>b\<in>set bs. b < 256" using assms by fastforce
  then show ?thesis
    by (simp add: decodeURIComponent_def unescapeTokens_percentEncode utf8Tokens_ascii [OF assms]
        del: map_map)
qed

lemma base64Encode_unchanged_by_cleanup:
  assumes "\<forall>b\<in>set bs. b < 256"
  shows "filter (\<lambda>c. \<not> isJsWhitespace c)
           (replaceAll (CHR ''_'') (CHR ''/'') (replaceAll (CHR ''-'') (CHR ''+'') (base64Encode bs))) =
         base64Encode bs"
proof -
  have sx: "\<forall>x\<in>set (bytesToSextets bs). x < 64"
    using assms by (rule bytesToSextets_bound)
  have r1: "replaceAll (CHR ''-'') (CHR ''+'') (base64Encode bs) = base64Encode bs"
    unfolding replaceAll_def base64Encode_def using sx base64_chars(5)
    by (auto simp: map_idI)
  have r2: "replaceAll (CHR ''_'') (CHR ''/'') (base64Encode bs) = base64Encode bs"
    unfolding replaceAll_def base64Encode_def using sx base64_chars(6)
    by (auto simp: map_idI)
  have eq: "\<not> isJsWhitespace (CHR ''='')"
    by (simp add: isJsWhitespace_def)
  have ws: "filter (\<lambda>c. \<not> isJsWhitespace c) (base64Encode bs) = base64Encode bs"
    unfolding filter_id_conv base64Encode_def using sx eq base64_chars(3) by auto
  show ?thesis by (simp only: r1 r2 ws)
qed

lemma filter_replaceAll:
  "\<not> isJsWhitespace a \<Longrightarrow> \<not> isJsWhitespace b \<Longrightarrow>
   filter (\<lambda>c. \<not> isJsWhitespace c) (replaceAll a b t) =
     replaceAll a b (filter (\<lambda>c. \<not> isJsWhitespace c) t)"
  by (induction t) (auto simp: replaceAll_def)

lemma cleanup_ignores_whitespace:
  "filter (\<lambda>c. \<not> isJsWhitespace c)
     (replaceAll (CHR ''_'') (CHR ''/'') (replaceAll (CHR ''-'') (CHR ''+'') t)) =
   filter (\<lambda>c. \<not> isJsWhitespace c)
     (replaceAll (CHR ''_'') (CHR ''/'') (replaceAll (CHR ''-'') (CHR ''+'')
        (filter (\<lambda>c. \<not> isJsWhitespace c) t)))"
proof -
  have ws: "\<not> isJsWhitespace (CHR ''_'')" "\<not> isJsWhitespace (CHR ''/'')"
    "\<not> isJsWhitespace (CHR ''-'')" "\<not> isJsWhitespace (CHR ''+'')"
    by (simp_all add: isJsWhitespace_def)
  show ?thesis
    by (simp add: filter_replaceAll ws)
qed

text \<open>
  C8. For every ASCII-only string, \<open>safeBase64Decode\<close> applied to the base64 encoding of
  the string (the encoding of its bytes, which for ASCII text are its character codes)
  gives the string back, character for character; and so it does when whitespace, such as
  the line feeds the hosting API puts into the encoding, is spread over the encoding.
\<close>

theorem safeBase64Decode_roundtrip_ascii:
  assumes "isAsciiString s"
  shows "safeBase64Decode (base64Encode (map of_char s)) = jsString s \<and>
         (\<forall>t. filter (\<lambda>c. \<not> isJsWhitespace c) t = base64Encode (map of_char s) \<longrightarrow>
              safeBase64Decode t = jsString s)"
proof -
  let ?bs = "map of_char s :: nat list"
  have small: "\<forall>b\<in>set ?bs. b < 128"
    using assms by (auto simp: isAsciiString_def list_all_iff)
  then have bytes: "\<forall>b\<in>set ?bs. b < 256" by fastforce
  have "safeBase64Decode (base64Encode ?bs) = ?bs"
    unfolding safeBase64Decode_def Let_def
    by (simp only: base64Encode_unchanged_by_cleanup [OF bytes] atob_base64Encode [OF bytes]
        decodeURIComponent_percentEncode_ascii [OF small] option.case)
  then have plain: "safeBase64Decode (base64Encode ?bs) = jsString s"
    by (simp add: jsString_def)
  have spread: "safeBase64Decode t = jsString s"
    if t: "filter (\<lambda>c. \<not> isJsWhitespace c) t = base64Encode ?bs" for t
  proof -
    have "safeBase64Decode t = safeBase64Decode (base64Encode ?bs)"
      unfolding safeBase64Decode_def Let_def
      by (simp only: cleanup_ignores_whitespace [of t] t
          base64Encode_unchanged_by_cleanup [OF bytes])
    then show ?thesis
      using plain by simp
  qed
  show ?thesis
    using plain spread by blast
qed

theorem safeBase64Decode_roundtrip_ascii_witness:
  "isAsciiString ''Hello, README'' \<and>
   safeBase64Decode ''SGVsbG8sIFJFQURNRQ=='' = jsString ''Hello, README'' \<and>
   safeBase64Decode ''SGVsbG8s\<newline>IFJFQURN\<newline>RQ==\<newline>'' = jsString ''Hello, README''"
proof -
  have a: "isAsciiString ''Hello, README''"
    by (simp add: isAsciiString_def)
  have e: "base64Encode (map of_char ''Hello, README'') = ''SGVsbG8sIFJFQURNRQ==''"
    by code_simp
  have f: "filter (\<lambda>c. \<not> isJsWhitespace c) ''SGVsbG8s\<newline>IFJFQURN\<newline>RQ==\<newline>'' =
      base64Encode (map of_char ''Hello, README'')"
    by code_simp
  show ?thesis
    using a f safeBase64Decode_roundtrip_ascii [OF a] by (simp only: e simp_thms)
qed

section \<open>Properties of the tree builder\<close>





lemma splitOn_no_sep: "sep \<notin> set s \<Longrightarrow> splitOn sep s = [s]"
  by (induction s) auto




lemma n_fields_setChildren [simp]:
  "n_path (setChildren node cs) = n_path node" "n_name (setChildren node cs) = n_name node"
  "n_type (setChildren node cs) = n_type node" "n_children (setChildren node cs) = Some cs"
  by (simp_all add: setChildren_def)

lemma childrenOf_setChildren [simp]: "childrenOf (setChildren node cs) = cs"
  by (simp add: childrenOf_def)


lemma walk_without_children:
  "n_children node = None \<Longrightarrow> walk leaf walked folders node = node"
  by (cases folders) (simp_all add: pushChild_def split: option.splits)

lemma walk_keeps_children_defined:
  "n_children node \<noteq> None \<Longrightarrow> n_children (walk leaf walked folders node) \<noteq> None"
  by (cases folders) (auto simp: pushChild_def split: option.splits)




















text \<open>
  C5. With the listing \<open>src/app/x.ts\<close> (a file) followed by \<open>src/app\<close> (a directory), two
  entries with distinct paths, both builders leave \<open>src\<close> with two children named \<open>app\<close> of
  type \<open>dir\<close>: the folder made on the way to the file, and the leaf pushed for the directory
  entry without looking for it.
\<close>

theorem buildHierarchy_duplicate_folder:
  "distinct (map e_path
     [\<lparr>e_path = ''src/app/x.ts'', e_name = ''x.ts'', e_type = TFile, e_size = None\<rparr>,
      \<lparr>e_path = ''src/app'', e_name = ''app'', e_type = TDir, e_size = None\<rparr>]) \<and>
   buildHierarchy ''repo''
     [\<lparr>e_path = ''src/app/x.ts'', e_name = ''x.ts'', e_type = TFile, e_size = None\<rparr>,
      \<lparr>e_path = ''src/app'', e_name = ''app'', e_type = TDir, e_size = None\<rparr>] =
   Some (FileNode [] ''repo'' TDir
     (Some [FileNode ''src'' ''src'' TDir
       (Some [FileNode ''src/app'' ''app'' TDir
                (Some [FileNode ''src/app/x.ts'' ''x.ts'' TFile None None None None])
                None None None,
              FileNode ''src/app'' ''app'' TDir (Some []) None None None])
       None None None])
     None None None) \<and>
   hierarchicalData ''repo''
     [\<lparr>e_path = ''src/app/x.ts'', e_name = ''x.ts'', e_type = TFile, e_size = None\<rparr>,
      \<lparr>e_path = ''src/app'', e_name = ''app'', e_type = TDir, e_size = None\<rparr>] =
   Some (FileNode [] ''repo'' TDir
     (Some [FileNode ''src'' ''src'' TDir
       (Some [FileNode ''src/app'' ''app'' TDir
                (Some [FileNode ''src/app/x.ts'' ''x.ts'' TFile None (Some ''ts'') None
                         (Some ''TypeScript source file'')])
                None None None,
              FileNode ''src/app'' ''app'' TDir None (Some []) None (Some ''Project file'')])
       None None None])
     None None None) \<and>
   \<not> noDuplicateChildren
     (FileNode ''src'' ''src'' TDir
       (Some [FileNode ''src/app'' ''app'' TDir
                (Some [FileNode ''src/app/x.ts'' ''x.ts'' TFile None None None None])
                None None None,
              FileNode ''src/app'' ''app'' TDir (Some []) None None None])
       None None None)"
  by code_simp

lemma updateFound_keeps:
  "updateFound P f cs = Some cs' \<Longrightarrow> x \<in> set cs \<Longrightarrow> f x = x \<Longrightarrow> x \<in> set cs'"
  by (induction cs arbitrary: cs') (auto split: if_splits)

lemma walk_keeps_leaf_child:
  assumes "x \<in> set (childrenOf node)" "n_children x = None"
  shows "x \<in> set (childrenOf (walk leaf walked folders node))"
proof (cases folders)
  case Nil
  then show ?thesis
    using assms(1) by (auto simp: pushChild_def childrenOf_def split: option.splits)
next
  case (Cons f rest)
  show ?thesis
  proof (cases "n_children node")
    case None
    then show ?thesis using assms(1) Cons by simp
  next
    case (Some cs)
    then have x: "x \<in> set cs" using assms(1) by (simp add: childrenOf_def)
    show ?thesis
    proof (cases "updateFound (isFolderNamed f) (walk leaf (walked @ [f]) rest) cs")
      case None
      then show ?thesis using Some Cons x by simp
    next
      case found: (Some cs')
      have "x \<in> set cs'"
        using found x walk_without_children [OF assms(2)] by (rule updateFound_keeps)
      then show ?thesis using Some Cons found by simp
    qed
  qed
qed

lemma walk_top_level:
  "n_children node = Some cs \<Longrightarrow> childrenOf (walk (Some child) walked [] node) = cs @ [child]"
  by (simp add: pushChild_def)

lemma splitOn_top_level:
  "CHR ''/'' \<notin> set (entryKey file) \<Longrightarrow> butlast (splitOn (CHR ''/'') (entryKey file)) = [] \<and>
     last (splitOn (CHR ''/'') (entryKey file)) = entryKey file \<and>
     length (splitOn (CHR ''/'') (entryKey file)) = 1"
  by (simp add: splitOn_no_sep)

lemma foldl_addEntryVis_keeps:
  "x \<in> set (childrenOf r) \<Longrightarrow> n_children x = None \<Longrightarrow>
   x \<in> set (childrenOf (foldl addEntryVis r fs))"
  by (induction fs arbitrary: r) (simp_all add: addEntryVis_def walk_keeps_leaf_child)

lemma foldl_addEntry_keeps:
  "x \<in> set (childrenOf r) \<Longrightarrow> n_children x = None \<Longrightarrow>
   x \<in> set (childrenOf (foldl addEntry r fs))"
  by (induction fs arbitrary: r) (simp_all add: addEntry_def Let_def walk_keeps_leaf_child)

lemma foldl_addEntryVis_top_level:
  assumes "entry \<in> set fs" "CHR ''/'' \<notin> set (entryKey entry)" "n_children r \<noteq> None"
  shows "visLeaf entry \<in> set (childrenOf (foldl addEntryVis r fs))"
  using assms
proof (induction fs arbitrary: r)
  case Nil
  then show ?case by simp
next
  case (Cons e fs)
  have r': "n_children (addEntryVis r e) \<noteq> None"
    using Cons.prems(3) by (simp add: addEntryVis_def walk_keeps_children_defined)
  show ?case
  proof (cases "entry = e")
    case True
    obtain cs where "n_children r = Some cs" using Cons.prems(3) by auto
    then have "visLeaf entry \<in> set (childrenOf (addEntryVis r e))"
      using True Cons.prems(2) by (simp add: addEntryVis_def splitOn_top_level pushChild_def)
    moreover have "n_children (visLeaf entry) = None"
      by (simp add: visLeaf_def Let_def)
    ultimately show ?thesis
      using foldl_addEntryVis_keeps by simp
  next
    case False
    then show ?thesis
      using Cons.IH [OF _ Cons.prems(2) r'] Cons.prems(1) by simp
  qed
qed

lemma foldl_addEntry_top_level:
  assumes "entry \<in> set fs" "CHR ''/'' \<notin> set (entryKey entry)" "e_type entry = TFile"
    "n_children r \<noteq> None"
  shows "renderLeaf entry \<in> set (childrenOf (foldl addEntry r fs))"
  using assms
proof (induction fs arbitrary: r)
  case Nil
  then show ?case by simp
next
  case (Cons e fs)
  have r': "n_children (addEntry r e) \<noteq> None"
    using Cons.prems(4) by (simp add: addEntry_def Let_def walk_keeps_children_defined)
  show ?case
  proof (cases "entry = e")
    case True
    obtain cs where "n_children r = Some cs" using Cons.prems(4) by auto
    then have "renderLeaf entry \<in> set (childrenOf (addEntry r e))"
      using True Cons.prems(2,3)
      by (simp add: addEntry_def Let_def splitOn_top_level pushChild_def)
    moreover have "n_children (renderLeaf entry) = None"
      using Cons.prems(3) by (simp add: renderLeaf_def)
    ultimately show ?thesis
      using foldl_addEntry_keeps by simp
  next
    case False
    then show ?thesis
      using Cons.IH [OF _ Cons.prems(2,3) r'] Cons.prems(1) by simp
  qed
qed

text \<open>
  C6, as the code has it. For a listing that holds an entry whose path has no \<open>/\<close>
  (\<open>entryKey\<close>: the path, or the name where the path is empty), the effect of
  \<open>CodeVisualization\<close> builds a tree, and the leaf of the entry is a direct child of its
  root, whatever the type of the entry. \<open>buildHierarchy\<close> of \<open>renderStructureTree\<close> builds a
  tree as well, and the leaf is a direct child of its root when the entry is a file; for
  any other type the guard \<open>pathParts.length > 1 || file.type === 'file'\<close> skips the push,
  and the entry leaves the tree as it was. The leaf carries the path of the entry, that
  path as its name, and the type of the entry.
\<close>

theorem top_level_entry_attached:
  assumes "CHR ''/'' \<notin> set (entryKey entry)" and "entry \<in> set fileStructure"
  shows "(\<exists>root. hierarchicalData repoName fileStructure = Some root \<and>
            visLeaf entry \<in> set (childrenOf root)) \<and>
         (e_type entry = TFile \<longrightarrow>
            (\<exists>root. buildHierarchy repoName fileStructure = Some root \<and>
               renderLeaf entry \<in> set (childrenOf root))) \<and>
         (e_type entry \<noteq> TFile \<longrightarrow> addEntry node entry = node) \<and>
         n_path (visLeaf entry) = entryKey entry \<and> n_name (visLeaf entry) = entryKey entry \<and>
         n_type (visLeaf entry) = e_type entry \<and>
         n_path (renderLeaf entry) = entryKey entry \<and>
         n_name (renderLeaf entry) = entryKey entry \<and> n_type (renderLeaf entry) = e_type entry"
proof -
  have r: "n_children (rootNode repoName) \<noteq> None"
    by (simp add: rootNode_def)
  have nonempty: "fileStructure \<noteq> []"
    using assms(2) by auto
  have vis: "\<exists>root. hierarchicalData repoName fileStructure = Some root \<and>
      visLeaf entry \<in> set (childrenOf root)"
    using foldl_addEntryVis_top_level [OF assms(2,1) r] nonempty
    by (simp add: hierarchicalData_def)
  have ren: "\<exists>root. buildHierarchy repoName fileStructure = Some root \<and>
      renderLeaf entry \<in> set (childrenOf root)"
    if "e_type entry = TFile"
    using foldl_addEntry_top_level [OF assms(2,1) that r] nonempty
    by (simp add: buildHierarchy_def)
  have skip: "addEntry node entry = node" if "e_type entry \<noteq> TFile"
    using that assms(1) by (simp add: addEntry_def Let_def splitOn_top_level)
  have fields: "n_path (visLeaf entry) = entryKey entry" "n_name (visLeaf entry) = entryKey entry"
    "n_type (visLeaf entry) = e_type entry" "n_path (renderLeaf entry) = entryKey entry"
    "n_name (renderLeaf entry) = entryKey entry" "n_type (renderLeaf entry) = e_type entry"
    using assms(1) by (simp_all add: visLeaf_def renderLeaf_def Let_def splitOn_top_level)
  show ?thesis
    using vis ren skip fields by (intro conjI impI)
qed

text \<open>
  In the listing \<open>README.md\<close>, \<open>src\<close>, \<open>src/a.ts\<close> the directory \<open>src\<close> is a child of the root
  for \<open>CodeVisualization\<close> and the file \<open>README.md\<close> is a child of the root for
  \<open>renderStructureTree\<close>, whose step for \<open>src\<close> changes nothing.
\<close>

theorem top_level_entry_attached_witness:
  "(\<exists>root. hierarchicalData ''repo'' topLevelListing = Some root \<and>
      FileNode ''src'' ''src'' TDir None (Some []) None (Some ''Project file'')
        \<in> set (childrenOf root)) \<and>
   (\<exists>root. buildHierarchy ''repo'' topLevelListing = Some root \<and>
      FileNode ''README.md'' ''README.md'' TFile None None None None \<in> set (childrenOf root)) \<and>
   addEntry (rootNode ''repo'') (topLevelListing ! 1) = rootNode ''repo''"
proof -
  let ?readme = "\<lparr>e_path = ''README.md'', e_name = ''README.md'', e_type = TFile,
      e_size = Some 12\<rparr>"
  let ?src = "\<lparr>e_path = ''src'', e_name = ''src'', e_type = TDir, e_size = None\<rparr>"
  have listing: "topLevelListing ! 1 = ?src" "?src \<in> set topLevelListing"
    "?readme \<in> set topLevelListing"
    by (simp_all add: topLevelListing_def)
  have keys: "CHR ''/'' \<notin> set (entryKey ?src)" "CHR ''/'' \<notin> set (entryKey ?readme)"
    by (simp_all add: entryKey_def)
  have leaves:
    "visLeaf ?src = FileNode ''src'' ''src'' TDir None (Some []) None (Some ''Project file'')"
    "renderLeaf ?readme = FileNode ''README.md'' ''README.md'' TFile None None None None"
    by code_simp+
  note dir = top_level_entry_attached [OF keys(1) listing(2), of "''repo''" "rootNode ''repo''"]
  note doc = top_level_entry_attached [OF keys(2) listing(3), of "''repo''" "rootNode ''repo''"]
  have vis: "\<exists>root. hierarchicalData ''repo'' topLevelListing = Some root \<and>
      FileNode ''src'' ''src'' TDir None (Some []) None (Some ''Project file'')
        \<in> set (childrenOf root)"
    using dir [THEN conjunct1] unfolding leaves .
  have ren: "\<exists>root. buildHierarchy ''repo'' topLevelListing = Some root \<and>
      FileNode ''README.md'' ''README.md'' TFile None None None None \<in> set (childrenOf root)"
    using doc [THEN conjunct2, THEN conjunct1] unfolding leaves by simp
  have skip: "addEntry (rootNode ''repo'') (topLevelListing ! 1) = rootNode ''repo''"
    using dir [THEN conjunct2, THEN conjunct2, THEN conjunct1] unfolding listing(1) by simp
  show ?thesis
    using vis ren skip by (intro conjI)
qed

text \<open>
  For \<open>buildHierarchy\<close> of \<open>renderStructureTree\<close> the statement does not hold of
  directories: the single top-level directory entry \<open>src\<close> leaves the root without
  children.
\<close>

theorem top_level_dir_not_attached:
  "buildHierarchy ''repo'' [\<lparr>e_path = ''src'', e_name = ''src'', e_type = TDir, e_size = None\<rparr>] =
     Some (FileNode [] ''repo'' TDir (Some []) None None None) \<and>
   childrenOf (FileNode [] ''repo'' TDir (Some []) None None None) = []"
  by code_simp

section \<open>Properties of the content fetcher\<close>

text \<open>What each attempt comes to, read off the reply of the network.\<close>

lemma apiAttempt_Got:
  "apiAttempt reply = Got s \<longleftrightarrow>
     (\<exists>response data c.
        reply = Returns response \<and> r_ok response \<and> r_json response = Returns data \<and>
        j_view data = JFile (StringValue c) (Some ''base64'') \<and> c \<noteq> [] \<and>
        atob (filter (\<lambda>ch. ch \<noteq> CHR 0x0A) c) = Some s)"
  by (auto simp: apiAttempt_def
      split: outcome.splits json_view.splits json_value.splits option.splits if_splits)

lemma apiAttempt_Threw:
  "apiAttempt reply = Threw \<longleftrightarrow>
     (\<exists>e. reply = Throws e) \<or>
     (\<exists>response. reply = Returns response \<and> r_ok response \<and>
        ((\<exists>e. r_json response = Throws e) \<or>
         (\<exists>data. r_json response = Returns data \<and>
            (j_view data = JNull \<or> j_view data = JFile OtherValue (Some ''base64'') \<or>
             (\<exists>c. j_view data = JFile (StringValue c) (Some ''base64'') \<and> c \<noteq> [] \<and>
                  atob (filter (\<lambda>ch. ch \<noteq> CHR 0x0A) c) = None)))))"
  by (auto simp: apiAttempt_def
      split: outcome.splits json_view.splits json_value.splits option.splits if_splits)

lemma apiAttempt_Failed:
  "apiAttempt reply = Failed \<longleftrightarrow>
     (\<exists>response. reply = Returns response \<and>
        (\<not> r_ok response \<or>
         (\<exists>data. r_json response = Returns data \<and> j_view data \<noteq> JNull \<and>
            (\<forall>content. j_view data = JFile content (Some ''base64'') \<longrightarrow>
                 content = NoValue \<or> content = StringValue []))))"
  by (auto simp: apiAttempt_def
      split: outcome.splits json_view.splits json_value.splits option.splits if_splits)

lemma rawAttempt_Got:
  "rawAttempt reply = Got s \<longleftrightarrow>
     (\<exists>response. reply = Returns response \<and> r_ok response \<and> r_text response = Returns s)"
  by (auto simp: rawAttempt_def split: outcome.splits if_splits)

lemma rawAttempt_Threw:
  "rawAttempt reply = Threw \<longleftrightarrow>
     (\<exists>e. reply = Throws e) \<or>
     (\<exists>response e. reply = Returns response \<and> r_ok response \<and> r_text response = Throws e)"
  by (auto simp: rawAttempt_def split: outcome.splits if_splits)

lemma rawAttempt_Failed:
  "rawAttempt reply = Failed \<longleftrightarrow> (\<exists>response. reply = Returns response \<and> \<not> r_ok response)"
  by (auto simp: rawAttempt_def split: outcome.splits if_splits)

lemma fetchGitHubFileContent_attempts:
  "fetchGitHubFileContent net trace repoOwner repoName filePath =
     (let A = Get (apiUrl repoOwner repoName filePath);
          M = Get (rawUrl repoOwner repoName filePath);
          S = Get (rawUrlMaster repoOwner repoName filePath)
      in case apiAttempt (net trace A) of
           Got s \<Rightarrow> (Some s, trace @ [A])
         | Threw \<Rightarrow> (None, trace @ [A])
         | Failed \<Rightarrow>
             (case rawAttempt (net (trace @ [A]) M) of
                Got s \<Rightarrow> (Some s, trace @ [A, M])
              | Threw \<Rightarrow> (None, trace @ [A, M])
              | Failed \<Rightarrow>
                  (case rawAttempt (net (trace @ [A, M]) S) of
                     Got s \<Rightarrow> (Some s, trace @ [A, M, S])
                   | _ \<Rightarrow> (None, trace @ [A, M, S]))))"
  by (simp add: fetchGitHubFileContent_def fetch_def Let_def split: attempt.splits)

text \<open>
  C3. \<open>fetchGitHubFileContent\<close> asks the contents API (\<open>A\<close>), then the raw URL of \<open>main\<close> (\<open>M\<close>),
  then the raw URL of \<open>master\<close> (\<open>S\<close>), in this order and no other source; \<open>r1\<close>, \<open>r2\<close>, \<open>r3\<close>
  are the replies of the network and \<open>F\<close> is what the call returns, with the requests made.

  \<^item> An ok reply of the contents API whose body carries a non-empty \<open>content\<close> with the
    encoding \<open>'base64'\<close> is decoded (line feeds dropped) and returned; no further request is
    made.
  \<^item> An exception at the first source gives \<open>null\<close> at once: a rejected \<open>fetch\<close>, a body that
    does not parse or is \<open>null\<close>, a content that is no string, a malformed base64 text.
  \<^item> The first source fails when the reply is not ok, or is ok without a content to decode.
    Then the text of an ok reply for \<open>main\<close> is returned; an exception there (a rejected
    \<open>fetch\<close>, a body that cannot be read) gives \<open>null\<close>.
  \<^item> When the reply for \<open>main\<close> is not ok either, the text of an ok reply for \<open>master\<close> is
    returned; an exception there gives \<open>null\<close>; and a reply that is not ok gives \<open>null\<close>
    after the three requests.

  The cases cover every reply: the function always returns a value, and no exception
  leaves it.
\<close>

theorem fetchGitHubFileContent_three_sources:
  assumes "A = Get (apiUrl repoOwner repoName filePath)"
      and "M = Get (rawUrl repoOwner repoName filePath)"
      and "S = Get (rawUrlMaster repoOwner repoName filePath)"
      and "r1 = net trace A"
      and "r2 = net (trace @ [A]) M"
      and "r3 = net (trace @ [A, M]) S"
      and "F = fetchGitHubFileContent net trace repoOwner repoName filePath"
  shows
    "(snd F = trace @ [A] \<or> snd F = trace @ [A, M] \<or> snd F = trace @ [A, M, S]) \<and>
     (\<forall>response data c s.
        r1 = Returns response \<and> r_ok response \<and> r_json response = Returns data \<and>
        j_view data = JFile (StringValue c) (Some ''base64'') \<and> c \<noteq> [] \<and>
        atob (filter (\<lambda>ch. ch \<noteq> CHR 0x0A) c) = Some s \<longrightarrow>
        F = (Some s, trace @ [A])) \<and>
     ((\<exists>e. r1 = Throws e) \<or>
      (\<exists>response. r1 = Returns response \<and> r_ok response \<and>
         ((\<exists>e. r_json response = Throws e) \<or>
          (\<exists>data. r_json response = Returns data \<and>
             (j_view data = JNull \<or> j_view data = JFile OtherValue (Some ''base64'') \<or>
              (\<exists>c. j_view data = JFile (StringValue c) (Some ''base64'') \<and> c \<noteq> [] \<and>
                   atob (filter (\<lambda>ch. ch \<noteq> CHR 0x0A) c) = None))))) \<longrightarrow>
        F = (None, trace @ [A])) \<and>
     ((\<exists>response. r1 = Returns response \<and>
         (\<not> r_ok response \<or>
          (\<exists>data. r_json response = Returns data \<and> j_view data \<noteq> JNull \<and>
             (\<forall>content. j_view data = JFile content (Some ''base64'') \<longrightarrow>
                  content = NoValue \<or> content = StringValue [])))) \<longrightarrow>
        (\<forall>response s.
           r2 = Returns response \<and> r_ok response \<and> r_text response = Returns s \<longrightarrow>
           F = (Some s, trace @ [A, M])) \<and>
        ((\<exists>e. r2 = Throws e) \<or>
         (\<exists>response e. r2 = Returns response \<and> r_ok response \<and> r_text response = Throws e) \<longrightarrow>
           F = (None, trace @ [A, M])) \<and>
        ((\<exists>response. r2 = Returns response \<and> \<not> r_ok response) \<longrightarrow>
           (\<forall>response s.
              r3 = Returns response \<and> r_ok response \<and> r_text response = Returns s \<longrightarrow>
              F = (Some s, trace @ [A, M, S])) \<and>
           ((\<exists>e. r3 = Throws e) \<or>
            (\<exists>response e. r3 = Returns response \<and> r_ok response \<and> r_text response = Throws e) \<longrightarrow>
              F = (None, trace @ [A, M, S])) \<and>
           ((\<exists>response. r3 = Returns response \<and> \<not> r_ok response) \<longrightarrow>
              F = (None, trace @ [A, M, S]))))"
proof -
  note F = assms(7) [unfolded fetchGitHubFileContent_attempts Let_def,
      folded assms(1) assms(2) assms(3), folded assms(4) assms(5) assms(6)]
  have order: "snd F = trace @ [A] \<or> snd F = trace @ [A, M] \<or> snd F = trace @ [A, M, S]"
    unfolding F by (simp split: attempt.splits)
  have got1: "F = (Some s, trace @ [A])" if "apiAttempt r1 = Got s" for s
    unfolding F using that by simp
  have threw1: "F = (None, trace @ [A])" if "apiAttempt r1 = Threw"
    unfolding F using that by simp
  have got2: "F = (Some s, trace @ [A, M])"
    if "apiAttempt r1 = Failed" "rawAttempt r2 = Got s" for s
    unfolding F using that by simp
  have threw2: "F = (None, trace @ [A, M])" if "apiAttempt r1 = Failed" "rawAttempt r2 = Threw"
    unfolding F using that by simp
  have got3: "F = (Some s, trace @ [A, M, S])"
    if "apiAttempt r1 = Failed" "rawAttempt r2 = Failed" "rawAttempt r3 = Got s" for s
    unfolding F using that by simp
  have threw3: "F = (None, trace @ [A, M, S])"
    if "apiAttempt r1 = Failed" "rawAttempt r2 = Failed" "rawAttempt r3 = Threw"
    unfolding F using that by simp
  have failed3: "F = (None, trace @ [A, M, S])"
    if "apiAttempt r1 = Failed" "rawAttempt r2 = Failed" "rawAttempt r3 = Failed"
    unfolding F using that by simp
  have decoded: "\<forall>response data c s.
        r1 = Returns response \<and> r_ok response \<and> r_json response = Returns data \<and>
        j_view data = JFile (StringValue c) (Some ''base64'') \<and> c \<noteq> [] \<and>
        atob (filter (\<lambda>ch. ch \<noteq> CHR 0x0A) c) = Some s \<longrightarrow>
        F = (Some s, trace @ [A])"
    using got1 unfolding apiAttempt_Got by blast
  have exception: "(\<exists>e. r1 = Throws e) \<or>
      (\<exists>response. r1 = Returns response \<and> r_ok response \<and>
         ((\<exists>e. r_json response = Throws e) \<or>
          (\<exists>data. r_json response = Returns data \<and>
             (j_view data = JNull \<or> j_view data = JFile OtherValue (Some ''base64'') \<or>
              (\<exists>c. j_view data = JFile (StringValue c) (Some ''base64'') \<and> c \<noteq> [] \<and>
                   atob (filter (\<lambda>ch. ch \<noteq> CHR 0x0A) c) = None))))) \<longrightarrow>
        F = (None, trace @ [A])"
    using threw1 unfolding apiAttempt_Threw by (rule impI)
  have master: "(\<forall>response s.
              r3 = Returns response \<and> r_ok response \<and> r_text response = Returns s \<longrightarrow>
              F = (Some s, trace @ [A, M, S])) \<and>
           ((\<exists>e. r3 = Throws e) \<or>
            (\<exists>response e. r3 = Returns response \<and> r_ok response \<and> r_text response = Throws e) \<longrightarrow>
              F = (None, trace @ [A, M, S])) \<and>
           ((\<exists>response. r3 = Returns response \<and> \<not> r_ok response) \<longrightarrow>
              F = (None, trace @ [A, M, S]))"
    if "apiAttempt r1 = Failed" "rawAttempt r2 = Failed"
    using got3 [OF that] threw3 [OF that] failed3 [OF that]
    unfolding rawAttempt_Got rawAttempt_Threw rawAttempt_Failed by blast
  have main: "(\<forall>response s.
           r2 = Returns response \<and> r_ok response \<and> r_text response = Returns s \<longrightarrow>
           F = (Some s, trace @ [A, M])) \<and>
        ((\<exists>e. r2 = Throws e) \<or>
         (\<exists>response e. r2 = Returns response \<and> r_ok response \<and> r_text response = Throws e) \<longrightarrow>
           F = (None, trace @ [A, M])) \<and>
        ((\<exists>response. r2 = Returns response \<and> \<not> r_ok response) \<longrightarrow>
           (\<forall>response s.
              r3 = Returns response \<and> r_ok response \<and> r_text response = Returns s \<longrightarrow>
              F = (Some s, trace @ [A, M, S])) \<and>
           ((\<exists>e. r3 = Throws e) \<or>
            (\<exists>response e. r3 = Returns response \<and> r_ok response \<and> r_text response = Throws e) \<longrightarrow>
              F = (None, trace @ [A, M, S])) \<and>
           ((\<exists>response. r3 = Returns response \<and> \<not> r_ok response) \<longrightarrow>
              F = (None, trace @ [A, M, S])))"
    if "apiAttempt r1 = Failed"
  proof (intro conjI impI)
    show "\<forall>response s.
           r2 = Returns response \<and> r_ok response \<and> r_text response = Returns s \<longrightarrow>
           F = (Some s, trace @ [A, M])"
      using got2 [OF that] unfolding rawAttempt_Got by blast
    show "F = (None, trace @ [A, M])"
      if "(\<exists>e. r2 = Throws e) \<or>
         (\<exists>response e. r2 = Returns response \<and> r_ok response \<and> r_text response = Throws e)"
      using threw2 [OF \<open>apiAttempt r1 = Failed\<close>] that unfolding rawAttempt_Threw by blast
  next
    assume "\<exists>response. r2 = Returns response \<and> \<not> r_ok response"
    then have f2: "rawAttempt r2 = Failed"
      unfolding rawAttempt_Failed .
    note m = master [OF that f2]
    show "\<forall>response s.
              r3 = Returns response \<and> r_ok response \<and> r_text response = Returns s \<longrightarrow>
              F = (Some s, trace @ [A, M, S])"
      using m by (rule conjunct1)
    show "F = (None, trace @ [A, M, S])"
      if "(\<exists>e. r3 = Throws e) \<or>
            (\<exists>response e. r3 = Returns response \<and> r_ok response \<and> r_text response = Throws e)"
      using m that by blast
    show "F = (None, trace @ [A, M, S])"
      if "\<exists>response. r3 = Returns response \<and> \<not> r_ok response"
      using m that by blast
  qed
  have failing: "apiAttempt r1 = Failed"
    if "\<exists>response. r1 = Returns response \<and>
         (\<not> r_ok response \<or>
          (\<exists>data. r_json response = Returns data \<and> j_view data \<noteq> JNull \<and>
             (\<forall>content. j_view data = JFile content (Some ''base64'') \<longrightarrow>
                  content = NoValue \<or> content = StringValue [])))"
    using that unfolding apiAttempt_Failed .
  show ?thesis
    apply (rule conjI, rule order)
    apply (rule conjI, rule decoded)
    apply (rule conjI, rule exception)
    apply (rule impI, rule main, erule failing)
    done
qed

theorem fetchGitHubFileContent_three_sources_witness:
  "fetchGitHubFileContent contentsApiOnly [] ''o'' ''r'' ''/a.ts'' =
     (Some ''hello'', [Get ''https://api.github.com/repos/o/r/contents/a.ts'']) \<and>
   fetchGitHubFileContent mainOnly [] ''o'' ''r'' ''/a.ts'' =
     (Some ''y'',
      [Get ''https://api.github.com/repos/o/r/contents/a.ts'',
       Get ''https://raw.githubusercontent.com/o/r/main/a.ts'']) \<and>
   fetchGitHubFileContent masterOnly [] ''o'' ''r'' ''/a.ts'' =
     (Some ''x'',
      [Get ''https://api.github.com/repos/o/r/contents/a.ts'',
       Get ''https://raw.githubusercontent.com/o/r/main/a.ts'',
       Get ''https://raw.githubusercontent.com/o/r/master/a.ts'']) \<and>
   fetchGitHubFileContent nowhere [] ''o'' ''r'' ''/a.ts'' =
     (None,
      [Get ''https://api.github.com/repos/o/r/contents/a.ts'',
       Get ''https://raw.githubusercontent.com/o/r/main/a.ts'',
       Get ''https://raw.githubusercontent.com/o/r/master/a.ts'']) \<and>
   fetchGitHubFileContent offline [] ''o'' ''r'' ''/a.ts'' =
     (None, [Get ''https://api.github.com/repos/o/r/contents/a.ts''])"
proof -
  let ?A = "Get (apiUrl ''o'' ''r'' ''/a.ts'')"
  let ?M = "Get (rawUrl ''o'' ''r'' ''/a.ts'')"
  let ?S = "Get (rawUrlMaster ''o'' ''r'' ''/a.ts'')"
  note sources = fetchGitHubFileContent_three_sources
    [OF refl refl refl refl refl refl refl,
      where repoOwner = "''o''" and repoName = "''r''" and filePath = "''/a.ts''" and trace = "[]"]
  have urls:
    "?A = Get ''https://api.github.com/repos/o/r/contents/a.ts''"
    "?M = Get ''https://raw.githubusercontent.com/o/r/main/a.ts''"
    "?S = Get ''https://raw.githubusercontent.com/o/r/master/a.ts''"
    by (simp_all add: apiUrl_def rawUrl_def rawUrlMaster_def cleanPathOf_def)
  have notFound: "\<not> r_ok notFoundResponse"
    by (simp add: notFoundResponse_def)
  have okText: "r_ok (okTextResponse s) \<and> r_text (okTextResponse s) = Returns s" for s
    by (simp add: okTextResponse_def)
  have failed: "\<exists>response. reply = Returns response \<and> (\<not> r_ok response \<or> X response)"
    if "reply = Returns notFoundResponse" for reply X
    using that notFound by blast
  have notOk: "\<exists>response. reply = Returns response \<and> \<not> r_ok response"
    if "reply = Returns notFoundResponse" for reply
    using that notFound by blast
  have api: "fetchGitHubFileContent contentsApiOnly [] ''o'' ''r'' ''/a.ts'' =
      (Some ''hello'', [] @ [?A])"
  proof -
    have r1: "contentsApiOnly [] ?A = Returns helloFileResponse"
      unfolding urls by (simp add: contentsApiOnly_def)
    have body: "r_ok helloFileResponse" "r_json helloFileResponse = Returns helloJson"
        "j_view helloJson = JFile (StringValue helloContent) (Some ''base64'')"
        "helloContent \<noteq> []"
      by (simp_all add: helloFileResponse_def helloJson_def helloContent_def)
    have decoded: "atob (filter (\<lambda>ch. ch \<noteq> CHR 0x0A) helloContent) = Some ''hello''"
      by code_simp
    show ?thesis
      using sources [where net = contentsApiOnly, THEN conjunct2, THEN conjunct1, rule_format,
          of helloFileResponse helloJson helloContent "''hello''"]
        r1 body decoded
      by simp
  qed
  have main: "fetchGitHubFileContent mainOnly [] ''o'' ''r'' ''/a.ts'' =
      (Some ''y'', [] @ [?A, ?M])"
  proof -
    have r1: "mainOnly [] ?A = Returns notFoundResponse"
      unfolding urls by (simp add: mainOnly_def)
    have r2: "mainOnly ([] @ [?A]) ?M = Returns (okTextResponse ''y'')"
      unfolding urls by (simp add: mainOnly_def)
    note second = sources [where net = mainOnly, THEN conjunct2, THEN conjunct2, THEN conjunct2,
        THEN mp, OF failed [OF r1]]
    show ?thesis
      using second [THEN conjunct1, rule_format, of "okTextResponse ''y''" "''y''"] r2 okText
      by simp
  qed
  have master: "fetchGitHubFileContent masterOnly [] ''o'' ''r'' ''/a.ts'' =
      (Some ''x'', [] @ [?A, ?M, ?S])"
  proof -
    have r1: "masterOnly [] ?A = Returns notFoundResponse"
      unfolding urls by (simp add: masterOnly_def)
    have r2: "masterOnly ([] @ [?A]) ?M = Returns notFoundResponse"
      unfolding urls by (simp add: masterOnly_def)
    have r3: "masterOnly ([] @ [?A, ?M]) ?S = Returns (okTextResponse ''x'')"
      unfolding urls by (simp add: masterOnly_def)
    note third = sources [where net = masterOnly, THEN conjunct2, THEN conjunct2, THEN conjunct2,
        THEN mp, OF failed [OF r1], THEN conjunct2, THEN conjunct2, THEN mp, OF notOk [OF r2]]
    show ?thesis
      using third [THEN conjunct1, rule_format, of "okTextResponse ''x''" "''x''"] r3 okText
      by simp
  qed
  have none: "fetchGitHubFileContent nowhere [] ''o'' ''r'' ''/a.ts'' = (None, [] @ [?A, ?M, ?S])"
  proof -
    have r: "nowhere t q = Returns notFoundResponse" for t q
      by (simp add: nowhere_def)
    show ?thesis
      by (rule sources [where net = nowhere, THEN conjunct2, THEN conjunct2, THEN conjunct2,
          THEN mp, OF failed [OF r], THEN conjunct2, THEN conjunct2, THEN mp, OF notOk [OF r],
          THEN conjunct2, THEN conjunct2, THEN mp, OF notOk [OF r]])
  qed
  have rejected: "fetchGitHubFileContent offline [] ''o'' ''r'' ''/a.ts'' = (None, [] @ [?A])"
  proof -
    have r1: "\<exists>e. offline [] ?A = Throws e"
      by (simp add: offline_def)
    show ?thesis
      by (rule sources [where net = offline, THEN conjunct2, THEN conjunct2, THEN conjunct1,
          THEN mp, OF disjI1 [OF r1]])
  qed
  show ?thesis
    using api main master none rejected unfolding urls by simp
qed
section \<open>Properties of the completion entry points\<close>

text \<open>With a well-formed key, each entry point posts its prompt: the guard is what stops it.\<close>

lemma generateRepoDocumentation_posts:
  "startsWith apiKey ''AIza'' \<Longrightarrow>
   snd (generateRepoDocumentation apiKey net trace stats repoName repoDescription readmeContent
          fileStructure) =
     trace @ [Post (completionUrl apiKey)
                (documentationPrompt repoName repoDescription stats readmeContent fileStructure)
                2048]"
  by (cases apiKey)
    (auto simp: generateRepoDocumentation_def fetch_def Let_def split: sum.splits)

text \<open>
  C7. With a configured key that is not empty and does not start with \<open>AIza\<close>, both
  completion entry points return their invalid-key message, and make no request: the
  trace of requests (and, for the query, the whole state) is returned as it was given, for
  every network.
\<close>

theorem invalid_key_no_request:
  assumes "apiKey \<noteq> []" and "\<not> startsWith apiKey ''AIza''"
  shows "generateRepoDocumentation apiKey net trace stats repoName repoDescription readmeContent
           fileStructure = (invalidKeyDocumentation, trace) \<and>
         queryRepoWithGemini apiKey net w patternMatches question repoName repoOwner
           repoDescription fileContext structure = (invalidKeyAnswer, w)"
  using assms by (simp add: generateRepoDocumentation_def queryRepoWithGemini_def)

theorem invalid_key_no_request_witness:
  "generateRepoDocumentation ''sk-1234'' masterOnly [] [] ''r'' None ''readme'' [] =
     (invalidKeyDocumentation, []) \<and>
   queryRepoWithGemini ''sk-1234'' masterOnly \<lparr>requests = [], fetched = []\<rparr> [] ''What is this?''
       ''r'' ''o'' None None None =
     (invalidKeyAnswer, \<lparr>requests = [], fetched = []\<rparr>)"
proof -
  have a: "''sk-1234'' \<noteq> []" and b: "\<not> startsWith ''sk-1234'' ''AIza''"
    by simp_all
  show ?thesis
    by (rule invalid_key_no_request [OF a b])
qed

lemma fetched_fetchContent:
  "fetched (snd (fetchContent net w repoOwner repoName filePath)) = fetched w @ [filePath]"
  by (simp add: fetchContent_def split: prod.splits)

lemma fetched_fetchRequested:
  "fetched (snd (fetchRequested net repoOwner repoName state p)) = fetched (snd state) @ [p]"
  using fetched_fetchContent [of net "snd state" repoOwner repoName p]
  by (auto simp: fetchRequested_def split: prod.splits option.splits)

lemma fetched_foldl_fetchRequested:
  "fetched (snd (foldl (fetchRequested net repoOwner repoName) state ps)) =
     fetched (snd state) @ ps"
  by (induction ps arbitrary: state) (simp_all add: fetched_fetchRequested)

lemma fetched_specificFileBranch:
  "fetched (snd (specificFileBranch net w repoOwner repoName patternMatches lowercaseQuestion)) =
     fetched w @ take 3 (detectRequestedPaths patternMatches lowercaseQuestion)"
  by (simp add: specificFileBranch_def Let_def fetched_foldl_fetchRequested)

text \<open>
  C10. For a question that names no common entry file and is not repo-wide, the paths
  handed to the content fetcher in the course of \<open>queryRepoWithGemini\<close> are the first
  three (\<open>n = 3\<close>, or none at all when the key is refused: \<open>n = 0\<close>) of the detected paths,
  one call each, however many paths were detected (\<open>patternMatches\<close> is arbitrary).
\<close>

theorem specific_files_at_most_three_fetched:
  assumes "find (\<lambda>file. includesStr (toLowerCase question) (toLowerCase file)) commonEntryFiles =
             None"
      and "\<not> isRepoWideQuestion (toLowerCase question)"
      and "queryRepoWithGemini apiKey net w patternMatches question repoName repoOwner
             repoDescription fileContext structure = (answer, w')"
  shows "\<exists>n. n \<le> 3 \<and>
           fetched w' =
             fetched w @ take n (detectRequestedPaths patternMatches (toLowerCase question)) \<and>
           length (fetched w') \<le> length (fetched w) + 3"
proof (cases "apiKey = [] \<or> \<not> startsWith apiKey ''AIza''")
  case True
  then have "w' = w"
    using assms(3) by (auto simp: queryRepoWithGemini_def split: if_splits)
  then have "fetched w' =
      fetched w @ take 0 (detectRequestedPaths patternMatches (toLowerCase question))"
    by simp
  then show ?thesis by force
next
  case False
  let ?lq = "toLowerCase question"
  have ctx: "snd (specificFileContextOf net w repoOwner repoName patternMatches question) =
      snd (specificFileBranch net w repoOwner repoName patternMatches ?lq)"
    using assms(1,2) by (simp add: specificFileContextOf_def Let_def split: prod.splits)
  have "fetched w' =
      fetched (snd (specificFileContextOf net w repoOwner repoName patternMatches question))"
    using assms(3) False
    by (auto simp: queryRepoWithGemini_def Let_def fetch_def split: prod.splits sum.splits)
  then have "fetched w' = fetched w @ take 3 (detectRequestedPaths patternMatches ?lq)"
    by (simp add: ctx fetched_specificFileBranch)
  then show ?thesis by force
qed

theorem specific_files_at_most_three_fetched_witness:
  "length (fetched (snd (queryRepoWithGemini ''AIzaKey'' masterOnly emptyWorld
      [''package.json'', ''a.ts'', ''b.ts'', ''c.ts''] ''What is in package.json?''
      ''r'' ''o'' None None None))) \<le> 3"
proof -
  let ?q = "''What is in package.json?''"
  obtain answer w' where
    q: "queryRepoWithGemini ''AIzaKey'' masterOnly emptyWorld
          [''package.json'', ''a.ts'', ''b.ts'', ''c.ts''] ?q ''r'' ''o'' None None None =
        (answer, w')"
    by (cases "queryRepoWithGemini ''AIzaKey'' masterOnly emptyWorld
          [''package.json'', ''a.ts'', ''b.ts'', ''c.ts''] ?q ''r'' ''o'' None None None")
  have a: "find (\<lambda>file. includesStr (toLowerCase ?q) (toLowerCase file)) commonEntryFiles = None"
    by code_simp
  have b: "\<not> isRepoWideQuestion (toLowerCase ?q)"
    by code_simp
  have "length (fetched w') \<le> length (fetched emptyWorld) + 3"
    using specific_files_at_most_three_fetched [OF a b q] by blast
  then show ?thesis
    using q by (simp add: emptyWorld_def)
qed

lemma length_truncateTo: "length (truncateTo n marker s) \<le> n + length marker"
  by (simp add: truncateTo_def)

lemma analyzeFile_fst:
  "fst (analyzeFile net repoOwner repoName state p) =
     (case truthy (fst (fetchContent net (snd state) repoOwner repoName p)) of
        Some content \<Rightarrow>
          fst state @ fenced (''File: '' @ p) (repoWideLanguage (fileExtOf p))
            (truncateTo 2000 ''...'' content)
      | None \<Rightarrow> fst state)"
  by (simp add: analyzeFile_def split: prod.splits option.splits)

lemma fetchRequested_fst:
  "fst (fetchRequested net repoOwner repoName state p) =
     (case truthy (fst (fetchContent net (snd state) repoOwner repoName p)) of
        Some content \<Rightarrow>
          fst state @ fenced (''File content for '' @ p) (specificLanguage (fileExtOf p)) content
      | None \<Rightarrow>
          fst state @ ''\<newline>I tried to fetch the content of '' @ p @
          '', but couldn't access it. It might not exist or require authentication.\<newline>'')"
  by (simp add: fetchRequested_def split: prod.splits option.splits)

lemma analyzeFile_adds:
  "fst (analyzeFile net repoOwner repoName state p) = fst state \<or>
   (\<exists>body. length body \<le> 2003 \<and>
      fst (analyzeFile net repoOwner repoName state p) =
        fst state @ fenced (''File: '' @ p) (repoWideLanguage (fileExtOf p)) body)"
proof (cases "truthy (fst (fetchContent net (snd state) repoOwner repoName p))")
  case None
  then show ?thesis
    by (simp add: analyzeFile_fst)
next
  case (Some c)
  have "length (truncateTo 2000 ''...'' c) \<le> 2003"
    using length_truncateTo [of 2000 "''...''" c] by simp
  moreover have "fst (analyzeFile net repoOwner repoName state p) =
      fst state @ fenced (''File: '' @ p) (repoWideLanguage (fileExtOf p))
        (truncateTo 2000 ''...'' c)"
    using Some by (simp add: analyzeFile_fst)
  ultimately show ?thesis by blast
qed

lemma foldl_analyzeFile_blocks:
  "\<exists>blocks. fst (foldl (analyzeFile net repoOwner repoName) state ps) =
       fst state @ concat (map repoWideBlock blocks) \<and>
     list_all (\<lambda>(p, body). length body \<le> 2003) blocks \<and> length blocks \<le> length ps"
proof (induction ps arbitrary: state)
  case Nil
  have "fst state = fst state @ concat (map repoWideBlock [])" by simp
  then show ?case by (intro exI [of _ "[]"]) simp
next
  case (Cons p ps)
  let ?s = "analyzeFile net repoOwner repoName state p"
  obtain blocks where b: "fst (foldl (analyzeFile net repoOwner repoName) ?s ps) =
       fst ?s @ concat (map repoWideBlock blocks)"
     "list_all (\<lambda>(p, body). length body \<le> 2003) blocks" "length blocks \<le> length ps"
    using Cons.IH [of ?s] by blast
  from analyzeFile_adds [of net repoOwner repoName state p]
  show ?case
  proof
    assume "fst ?s = fst state"
    then show ?thesis
      using b by (intro exI [of _ blocks]) simp
  next
    assume "\<exists>body. length body \<le> 2003 \<and>
      fst ?s = fst state @ fenced (''File: '' @ p) (repoWideLanguage (fileExtOf p)) body"
    then obtain body where "length body \<le> 2003"
      "fst ?s = fst state @ fenced (''File: '' @ p) (repoWideLanguage (fileExtOf p)) body"
      by blast
    then show ?thesis
      using b by (intro exI [of _ "(p, body) # blocks"]) (simp add: repoWideBlock_def)
  qed
qed

lemma firstContent_Some:
  "firstContent net repoOwner repoName ps w = (Some (p, c), w') \<Longrightarrow>
   p \<in> set ps \<and> c \<noteq> [] \<and> (\<exists>w0. fst (fetchContent net w0 repoOwner repoName p) = Some c)"
proof (induction ps arbitrary: w)
  case Nil
  then show ?case by simp
next
  case (Cons q ps)
  obtain r w1 where f: "fetchContent net w repoOwner repoName q = (r, w1)"
    by (cases "fetchContent net w repoOwner repoName q")
  show ?case
  proof (cases "truthy r")
    case None
    then have "firstContent net repoOwner repoName ps w1 = (Some (p, c), w')"
      using Cons.prems f by (auto simp: truthy_def split: option.splits if_splits)
    then show ?thesis
      using Cons.IH by auto
  next
    case (Some c')
    then have "r = Some c'" "c' \<noteq> []"
      by (auto simp: truthy_def split: option.splits if_splits)
    then have "p = q" "c = c'"
      using Cons.prems f by auto
    then show ?thesis
      using f \<open>r = Some c'\<close> \<open>c' \<noteq> []\<close> by (metis fst_conv list.set_intros(1))
  qed
qed

lemma truncateTo_cases:
  "(length s \<le> n \<longrightarrow> truncateTo n marker s = s) \<and>
   (n < length s \<longrightarrow> truncateTo n marker s = take n s @ marker)"
  by (simp add: truncateTo_def)

lemma repoWideBranch_blocks:
  "\<exists>blocks. fst (repoWideBranch net w repoOwner repoName question) =
       ''\<newline>Analyzing repository architecture...\<newline>\<newline>'' @ concat (map repoWideBlock blocks) \<and>
     list_all (\<lambda>(p, body). length body \<le> 2003) blocks \<and> length blocks \<le> 5"
proof -
  obtain importantFiles trace' where
    g: "getRepositoryFiles net (requests w) repoOwner repoName = (importantFiles, trace')"
    by (cases "getRepositoryFiles net (requests w) repoOwner repoName")
  let ?fs = "selectRelevantFiles importantFiles question"
  let ?s = "(''\<newline>Analyzing repository architecture...\<newline>\<newline>'', w\<lparr>requests := trace'\<rparr>)"
  obtain blocks where b:
    "fst (foldl (analyzeFile net repoOwner repoName) ?s ?fs) = fst ?s @ concat (map repoWideBlock blocks)"
    "list_all (\<lambda>(p, body). length body \<le> 2003) blocks" "length blocks \<le> length ?fs"
    using foldl_analyzeFile_blocks [of net repoOwner repoName ?s ?fs] by blast
  have "length ?fs \<le> 5"
    by (simp add: selectRelevantFiles_def Let_def)
  then have "length blocks \<le> 5"
    using b(3) by simp
  moreover have "fst (repoWideBranch net w repoOwner repoName question) =
      ''\<newline>Analyzing repository architecture...\<newline>\<newline>'' @ concat (map repoWideBlock blocks)"
    using b(1) g by (simp add: repoWideBranch_def)
  ultimately show ?thesis
    using b(2) by blast
qed

text \<open>
  C4, as the code has it. The repo-wide branch puts every fetched content into the context
  cut at 2000 characters, with \<open>...\<close> appended when it was longer: its context is the
  heading followed by at most five blocks whose text between the fences has at most 2003
  characters. The specific-file branch and both loops of the entry-file branch put the
  fetched content between the fences as it is.
\<close>

theorem truncation_by_branch:
  "(\<exists>blocks. fst (repoWideBranch net w repoOwner repoName question) =
       ''\<newline>Analyzing repository architecture...\<newline>\<newline>'' @ concat (map repoWideBlock blocks) \<and>
     list_all (\<lambda>(p, body). length body \<le> 2003) blocks \<and> length blocks \<le> 5) \<and>
   (fst (fetchContent net w repoOwner repoName p) = Some content \<and> content \<noteq> [] \<longrightarrow>
      fst (analyzeFile net repoOwner repoName (context, w) p) =
        context @ repoWideBlock (p, truncateTo 2000 ''...'' content) \<and>
      (length content \<le> 2000 \<longrightarrow> truncateTo 2000 ''...'' content = content) \<and>
      (2000 < length content \<longrightarrow> truncateTo 2000 ''...'' content = take 2000 content @ ''...'') \<and>
      fst (fetchRequested net repoOwner repoName (context, w) p) =
        context @ fenced (''File content for '' @ p) (specificLanguage (fileExtOf p)) content) \<and>
   (firstContent net repoOwner repoName (possiblePathsFor requestedEntryFile) w =
        (Some (p, content), w1) \<longrightarrow>
      fst (entryFileBranch net w repoOwner repoName requestedEntryFile) =
        fenced (''Found file: '' @ p) (entryLanguage (fileExtOf p)) content \<and>
      (\<exists>w0. fst (fetchContent net w0 repoOwner repoName p) = Some content)) \<and>
   (firstContent net repoOwner repoName (possiblePathsFor requestedEntryFile) w = (None, w1) \<and>
    firstContent net repoOwner repoName entryPoints w1 = (Some (p, content), w2) \<longrightarrow>
      (\<exists>context'. fst (entryFileBranch net w repoOwner repoName requestedEntryFile) =
         context' @ fenced (''Found related entry file: '' @ p) (entryLanguage (fileExtOf p))
           content) \<and>
      (\<exists>w0. fst (fetchContent net w0 repoOwner repoName p) = Some content))"
proof -
  have repo: "\<exists>blocks. fst (repoWideBranch net w repoOwner repoName question) =
       ''\<newline>Analyzing repository architecture...\<newline>\<newline>'' @ concat (map repoWideBlock blocks) \<and>
     list_all (\<lambda>(p, body). length body \<le> 2003) blocks \<and> length blocks \<le> 5"
    by (rule repoWideBranch_blocks)
  have step: "fst (analyzeFile net repoOwner repoName (context, w) p) =
        context @ repoWideBlock (p, truncateTo 2000 ''...'' content) \<and>
      (length content \<le> 2000 \<longrightarrow> truncateTo 2000 ''...'' content = content) \<and>
      (2000 < length content \<longrightarrow> truncateTo 2000 ''...'' content = take 2000 content @ ''...'') \<and>
      fst (fetchRequested net repoOwner repoName (context, w) p) =
        context @ fenced (''File content for '' @ p) (specificLanguage (fileExtOf p)) content"
    if "fst (fetchContent net w repoOwner repoName p) = Some content \<and> content \<noteq> []"
    using that truncateTo_cases [of content 2000 "''...''"]
    by (simp add: analyzeFile_fst fetchRequested_fst truthy_def repoWideBlock_def)
  have first: "fst (entryFileBranch net w repoOwner repoName requestedEntryFile) =
        fenced (''Found file: '' @ p) (entryLanguage (fileExtOf p)) content \<and>
      (\<exists>w0. fst (fetchContent net w0 repoOwner repoName p) = Some content)"
    if "firstContent net repoOwner repoName (possiblePathsFor requestedEntryFile) w =
        (Some (p, content), w1)"
    using that firstContent_Some [OF that] by (simp add: entryFileBranch_def)
  have second: "(\<exists>context'. fst (entryFileBranch net w repoOwner repoName requestedEntryFile) =
         context' @ fenced (''Found related entry file: '' @ p) (entryLanguage (fileExtOf p))
           content) \<and>
      (\<exists>w0. fst (fetchContent net w0 repoOwner repoName p) = Some content)"
    if "firstContent net repoOwner repoName (possiblePathsFor requestedEntryFile) w = (None, w1) \<and>
        firstContent net repoOwner repoName entryPoints w1 = (Some (p, content), w2)"
  proof -
    have "\<exists>w0. fst (fetchContent net w0 repoOwner repoName p) = Some content"
      using that firstContent_Some [of net repoOwner repoName entryPoints w1 p content w2]
      by blast
    moreover have "\<exists>context'. fst (entryFileBranch net w repoOwner repoName requestedEntryFile) =
         context' @ fenced (''Found related entry file: '' @ p) (entryLanguage (fileExtOf p))
           content"
      using that by (simp add: entryFileBranch_def Let_def)
    ultimately show ?thesis by blast
  qed
  show ?thesis
    using repo step first second by blast
qed

lemma bigFileNet_fetch:
  "fetchContent bigFileNet emptyWorld ''o'' ''r'' ''notes.txt'' =
     (Some (replicate 2500 (CHR ''x'')),
      \<lparr>requests = [Get ''https://api.github.com/repos/o/r/contents/notes.txt'',
                   Get ''https://raw.githubusercontent.com/o/r/main/notes.txt''],
       fetched = [''notes.txt'']\<rparr>)"
  by (simp add: fetchContent_def fetchGitHubFileContent_def fetch_def emptyWorld_def bigFileNet_def
      apiUrl_def rawUrl_def cleanPathOf_def apiAttempt_def rawAttempt_def notFoundResponse_def
      okTextResponse_def)

theorem truncation_by_branch_witness:
  "fst (analyzeFile bigFileNet ''o'' ''r'' ([], emptyWorld) ''notes.txt'') =
     repoWideBlock (''notes.txt'', replicate 2000 (CHR ''x'') @ ''...'') \<and>
   fst (fetchRequested bigFileNet ''o'' ''r'' ([], emptyWorld) ''notes.txt'') =
     fenced ''File content for notes.txt'' ''txt'' (replicate 2500 (CHR ''x''))"
proof -
  let ?c = "replicate 2500 (CHR ''x'')"
  have f: "fst (fetchContent bigFileNet emptyWorld ''o'' ''r'' ''notes.txt'') = Some ?c \<and> ?c \<noteq> []"
    by (simp add: bigFileNet_fetch)
  have l: "2000 < length ?c"
    by simp
  have t: "take 2000 ?c = replicate 2000 (CHR ''x'')"
    by simp
  have e: "specificLanguage (fileExtOf ''notes.txt'') = ''txt''"
    by code_simp
  from f l have "fst (analyzeFile bigFileNet ''o'' ''r'' ([], emptyWorld) ''notes.txt'') =
        [] @ repoWideBlock (''notes.txt'', take 2000 ?c @ ''...'') \<and>
      fst (fetchRequested bigFileNet ''o'' ''r'' ([], emptyWorld) ''notes.txt'') =
        [] @ fenced (''File content for '' @ ''notes.txt'') (specificLanguage (fileExtOf ''notes.txt'')) ?c"
    using truncation_by_branch [of bigFileNet emptyWorld "''o''" "''r''" _ "''notes.txt''" ?c "[]"]
    by metis
  then show ?thesis
    by (simp only: t e append_Nil) simp
qed

text \<open>
  In the specific-file branch nothing is cut: for the question \<open>Show me notes.txt\<close>, with a
  file of 2500 characters at the raw URL of \<open>main\<close>, the prompt posted to the completion
  endpoint holds all 2500 characters between the fences.
\<close>

theorem specific_file_content_not_truncated:
  "requests (snd (queryRepoWithGemini ''AIzaKey'' bigFileNet emptyWorld [''notes.txt'']
      ''Show me notes.txt'' ''r'' ''o'' None None None)) =
     [Get ''https://api.github.com/repos/o/r/contents/notes.txt'',
      Get ''https://raw.githubusercontent.com/o/r/main/notes.txt'',
      Post (completionUrl ''AIzaKey'')
        (queryPrompt ''r'' ''o'' None [] None
           (fenced ''File content for notes.txt'' ''txt'' (replicate 2500 (CHR ''x'')))
           ''Show me notes.txt'')
        4096] \<and>
   2003 < length (replicate 2500 (CHR ''x''))"
proof -
  let ?q = "''Show me notes.txt''"
  have a: "find (\<lambda>file. includesStr (toLowerCase ?q) (toLowerCase file)) commonEntryFiles = None"
    by code_simp
  have b: "\<not> isRepoWideQuestion (toLowerCase ?q)"
    by code_simp
  have d: "detectRequestedPaths [''notes.txt''] (toLowerCase ?q) = [''notes.txt'']"
    by code_simp
  have e: "specificLanguage (fileExtOf ''notes.txt'') = ''txt''"
    by code_simp
  have k: "startsWith ''AIzaKey'' ''AIza''"
    by simp
  have s: "specificFileBranch bigFileNet emptyWorld ''o'' ''r'' [''notes.txt''] (toLowerCase ?q) =
      (fenced ''File content for notes.txt'' ''txt'' (replicate 2500 (CHR ''x'')),
       \<lparr>requests = [Get ''https://api.github.com/repos/o/r/contents/notes.txt'',
                    Get ''https://raw.githubusercontent.com/o/r/main/notes.txt''],
        fetched = [''notes.txt'']\<rparr>)"
    by (simp add: specificFileBranch_def d fetchRequested_def bigFileNet_fetch truthy_def e)
  have c: "specificFileContextOf bigFileNet emptyWorld ''o'' ''r'' [''notes.txt''] ?q =
      (fenced ''File content for notes.txt'' ''txt'' (replicate 2500 (CHR ''x'')),
       \<lparr>requests = [Get ''https://api.github.com/repos/o/r/contents/notes.txt'',
                    Get ''https://raw.githubusercontent.com/o/r/main/notes.txt''],
        fetched = [''notes.txt'']\<rparr>)"
    unfolding specificFileContextOf_def Let_def a using b by (simp add: s)
  have st: "structureContextOf None = []"
    by (simp add: structureContextOf_def)
  show ?thesis
    unfolding queryRepoWithGemini_def Let_def c st using k
    by (simp add: fetch_def split: sum.splits)
qed

section \<open>The number of requests of a repository view\<close>

lemma length_chainPath: "length (chainPath k) = 3 + 2 * k"
  by (induction k) (simp_all add: chainPath_def)

lemma chainPath_inj: "chainPath j = chainPath k \<longleftrightarrow> j = k"
proof
  assume "chainPath j = chainPath k"
  then have "length (chainPath j) = length (chainPath k)"
    by simp
  then show "j = k"
    by (simp add: length_chainPath)
qed simp

lemma find_snoc:
  "find P (xs @ [x]) =
     (case find P xs of Some y \<Rightarrow> Some y | None \<Rightarrow> if P x then Some x else None)"
  by (induction xs) simp_all

lemma find_chain: "find (\<lambda>j. k = j) [0..<n] = (if k < n then Some k else None)"
proof (induction n)
  case 0
  show ?case by simp
next
  case (Suc n)
  show ?case
    using Suc by (cases "k < n") (simp_all add: find_snoc)
qed

lemma dirUrl_inj: "dirUrl owner repo p = dirUrl owner repo q \<longleftrightarrow> p = q"
  by (simp add: dirUrl_def)

lemma dirUrl_other:
  "dirUrl owner repo p \<noteq> repoApi owner repo @ ''/readme''"
  "dirUrl owner repo p \<noteq> repoApi owner repo @ ''/contents''"
  by (simp_all add: dirUrl_def)

lemma deepRepo_chain:
  "deepRepo n t (Get (dirUrl ''o'' ''r'' (chainPath k))) =
     (if k < n then Returns (listingResponse [dirEntry (chainPath (Suc k)) ''d''])
      else Returns (listingResponse []))"
proof -
  have "find (\<lambda>j. Get (dirUrl ''o'' ''r'' (chainPath k)) = Get (dirUrl ''o'' ''r'' (chainPath j)))
          [0..<n] =
      find (\<lambda>j. k = j) [0..<n]"
    by (simp only: request.inject dirUrl_inj chainPath_inj)
  then show ?thesis
    unfolding deepRepo_def
    by (simp only: request.inject dirUrl_other if_False find_chain) simp
qed

lemma fetchDirectoryContents_chain:
  "n - k = d \<Longrightarrow> k \<le> n \<Longrightarrow>
   \<exists>st'. fetchDirectoryContents (deepRepo n) ''o'' ''r'' (chainPath k) st = Some st' \<and>
     length (v_requests st') = length (v_requests st) + (n - k) + 1"
proof (induction d arbitrary: k st)
  case 0
  then have "k = n" by simp
  then show ?case
    by (subst fetchDirectoryContents.simps)
      (simp add: deepRepo_chain listingResponse_def Let_def)
next
  case (Suc d)
  then have k: "k < n" and d: "n - Suc k = d" and le: "Suc k \<le> n"
    by simp_all
  let ?st2 = "st\<lparr>v_requests := v_requests st @ [Get (dirUrl ''o'' ''r'' (chainPath k))],
      v_fileStructure := spliceContents (chainPath k) [dirEntry (chainPath (Suc k)) ''d'']
        (v_fileStructure st)\<rparr>"
  obtain st' where s: "fetchDirectoryContents (deepRepo n) ''o'' ''r'' (chainPath (Suc k)) ?st2 = Some st'"
      "length (v_requests st') = length (v_requests ?st2) + (n - Suc k) + 1"
    using Suc.IH [OF d le, of ?st2] by blast
  have "fetchDirectoryContents (deepRepo n) ''o'' ''r'' (chainPath k) st =
      fetchDirectoryContents (deepRepo n) ''o'' ''r'' (chainPath (Suc k)) ?st2"
    using k
    by (subst fetchDirectoryContents.simps)
      (simp add: deepRepo_chain listingResponse_def dirEntry_def Let_def)
  then show ?case
    using s k by simp
qed

text \<open>
  C9. The view of the repository \<open>deepRepo n\<close> makes \<open>n + 3\<close> requests: the README, the root
  listing, \<open>src\<close>, and one for each of the \<open>n\<close> directories nested below it. No more than two
  directories are expanded at any level, but nothing bounds the depth, so the number of
  requests grows with the repository.
\<close>

theorem repository_view_requests_grow_with_depth:
  "\<exists>st. fetchRepositoryData (deepRepo n) ''o'' ''r'' emptyView = Some st \<and>
     length (v_requests st) = n + 3"
proof -
  let ?st2 = "\<lparr>v_readme = Some (jsString
                    (''# No README found'' @ ''\<newline>\<newline>'' @
                     ''This repository doesn't have a README file.'')),
      v_fileStructure = [FileRow (dirEntry ''src'' ''src'')],
      v_requests = [Get (repoApi ''o'' ''r'' @ ''/readme''), Get (repoApi ''o'' ''r'' @ ''/contents'')]\<rparr>"
  obtain st where s: "fetchDirectoryContents (deepRepo n) ''o'' ''r'' (chainPath 0) ?st2 = Some st"
      "length (v_requests st) = length (v_requests ?st2) + (n - 0) + 1"
    using fetchDirectoryContents_chain [of n 0 n ?st2] by auto
  have readme: "deepRepo n [] (Get (repoApi ''o'' ''r'' @ ''/readme'')) = Returns notFoundResponse"
    by (simp add: deepRepo_def)
  have root: "deepRepo n [Get (repoApi ''o'' ''r'' @ ''/readme'')] (Get (repoApi ''o'' ''r'' @ ''/contents'')) =
      Returns (listingResponse [dirEntry ''src'' ''src''])"
    by (simp add: deepRepo_def)
  have top: "isImportantTopLevel (dirEntry ''src'' ''src'')"
    by (simp add: isImportantTopLevel_def dirEntry_def)
  have src: "e_path (dirEntry ''src'' ''src'') = chainPath 0"
    by (simp add: dirEntry_def chainPath_def)
  have "fetchRepositoryStructure (deepRepo n) ''o'' ''r'' []
      \<lparr>v_readme = Some (jsString
                    (''# No README found'' @ ''\<newline>\<newline>'' @
                     ''This repository doesn't have a README file.'')),
       v_fileStructure = [], v_requests = [Get (repoApi ''o'' ''r'' @ ''/readme'')]\<rparr> =
      fetchDirectoryContents (deepRepo n) ''o'' ''r'' (chainPath 0) ?st2"
    by (simp add: fetchRepositoryStructure_def Let_def root listingResponse_def top src)
  then have "fetchRepositoryData (deepRepo n) ''o'' ''r'' emptyView =
      fetchDirectoryContents (deepRepo n) ''o'' ''r'' (chainPath 0) ?st2"
    by (simp add: fetchRepositoryData_def Let_def emptyView_def readme notFoundResponse_def)
  then show ?thesis
    using s by simp
qed

end
